theory Spec2Isabelle
  imports Main "HOL-Library.AList"
begin

section \<open>Python values shared by both components\<close>

text \<open>
  A Python \<open>dict\<close> keeps its keys in insertion order and \<open>json.dump\<close> writes them in
  that order, so a dict is an association list: \<^const>\<open>map_of\<close> reads a key,
  \<^const>\<open>AList.update\<close> is the assignment \<open>d[k] = v\<close> (the value is replaced in place when
  the key is present, the pair is appended otherwise).
\<close>

type_synonym ('k, 'v) dict = "('k \<times> 'v) list"

definition dict_get :: "('k, 'v) dict \<Rightarrow> 'k \<Rightarrow> 'v \<Rightarrow> 'v" where
  \<comment> \<open>\<open>d.get(k, default)\<close>\<close>
  "dict_get d k dflt = (case map_of d k of None \<Rightarrow> dflt | Some v \<Rightarrow> v)"

text \<open>
  One reading of \<open>datetime.now()\<close>, by the two renderings the program takes of it:
  \<open>strftime('%Y-%m-%d')\<close> and \<open>isoformat()\<close>. The clock is an input of every operation
  that reads it.
\<close>

record datetime =
  strftime_Ymd :: string
  isoformat :: string

datatype py_error = KeyError string

section \<open>APIKeyManager\<close>

record plan_limits =
  limit_requests_per_day :: int
  limit_rate_limit :: int

definition limits :: "(string, plan_limits) dict" where
  "limits =
     [(''free'', \<lparr>limit_requests_per_day = 100, limit_rate_limit = 10\<rparr>),
      (''premium'', \<lparr>limit_requests_per_day = 1000, limit_rate_limit = 100\<rparr>),
      (''enterprise'', \<lparr>limit_requests_per_day = 10000, limit_rate_limit = 1000\<rparr>)]"

record key_data =
  user_email :: string
  api_key :: string
  plan_type :: string
  requests_per_day :: int
  rate_limit :: int
  created_at :: string
  is_active :: bool
  total_requests :: int
  last_used :: "string option"

text \<open>
  The manager holds the two dicts in memory (\<open>api_keys\<close>: key to record, \<open>usage_data\<close>:
  day to key to count); \<open>save_data\<close> copies a dict to its file, modelled by the two
  \<open>_FILE\<close> fields. \<open>load_data\<close> gives the empty dict for a missing, empty or invalid file.
\<close>

record APIKeyManager =
  api_keys :: "(string, key_data) dict"
  usage_data :: "(string, (string, int) dict) dict"
  API_KEYS_FILE :: "(string, key_data) dict"
  USAGE_FILE :: "(string, (string, int) dict) dict"

definition init_manager :: APIKeyManager where
  "init_manager = \<lparr>api_keys = [], usage_data = [], API_KEYS_FILE = [], USAGE_FILE = []\<rparr>"

text \<open>
  \<open>create_api_key\<close>: the first argument is the value \<open>generate_api_key()\<close> returned
  (\<open>'api_'\<close> and 32 characters drawn by \<open>secrets.choice\<close>), the second the clock.
  \<open>limits['free']\<close> is evaluated before \<open>limits.get\<close> is called.
\<close>

definition create_api_key ::
  "string \<Rightarrow> datetime \<Rightarrow> string \<Rightarrow> string \<Rightarrow> APIKeyManager
     \<Rightarrow> (py_error + string \<times> key_data) \<times> APIKeyManager" where
  "create_api_key generated now email plan self =
     (case map_of limits ''free'' of
        None \<Rightarrow> (Inl (KeyError ''free''), self)
      | Some free_limits \<Rightarrow>
          let lim = dict_get limits plan free_limits;
              kd = \<lparr>user_email = email,
                    api_key = generated,
                    plan_type = plan,
                    requests_per_day = limit_requests_per_day lim,
                    rate_limit = limit_rate_limit lim,
                    created_at = isoformat now,
                    is_active = True,
                    total_requests = 0,
                    last_used = None\<rparr>;
              keys' = AList.update generated kd (api_keys self)
          in (Inr (generated, kd), self\<lparr>api_keys := keys', API_KEYS_FILE := keys'\<rparr>))"

text \<open>
  \<open>validate_api_key\<close> returns the pair \<open>(False, message)\<close> as \<open>Inl message\<close> and
  \<open>(True, key_data)\<close> as \<open>Inr key_data\<close>. Past the first two checks it creates the
  day's dict and the key's zero count when they are missing (in memory only).
\<close>

definition validate_api_key ::
  "datetime \<Rightarrow> string \<Rightarrow> APIKeyManager \<Rightarrow> (string + key_data) \<times> APIKeyManager" where
  "validate_api_key now k self =
     (case map_of (api_keys self) k of
        None \<Rightarrow> (Inl ''Invalid API key'', self)
      | Some kd \<Rightarrow>
          if \<not> is_active kd then (Inl ''API key is inactive'', self)
          else
            let today = strftime_Ymd now;
                day = (case map_of (usage_data self) today of None \<Rightarrow> [] | Some d \<Rightarrow> d);
                cnt = (case map_of day k of None \<Rightarrow> 0 | Some c \<Rightarrow> c);
                self' = self\<lparr>usage_data :=
                          AList.update today (AList.update k cnt day) (usage_data self)\<rparr>
            in if cnt \<ge> requests_per_day kd
               then (Inl ''Daily request limit exceeded'', self')
               else (Inr kd, self'))"

text \<open>
  \<open>record_usage\<close> reads the clock twice (the day, then \<open>last_used\<close>). The ledger is
  incremented before \<open>self.api_keys[api_key]\<close> is indexed, so for a key without a record
  the \<open>KeyError\<close> leaves the incremented ledger in memory and nothing is saved.
\<close>

definition record_usage ::
  "datetime \<Rightarrow> datetime \<Rightarrow> string \<Rightarrow> APIKeyManager \<Rightarrow> (py_error + unit) \<times> APIKeyManager" where
  "record_usage now now2 k self =
     (let today = strftime_Ymd now;
          day = (case map_of (usage_data self) today of None \<Rightarrow> [] | Some d \<Rightarrow> d);
          cnt = (case map_of day k of None \<Rightarrow> 0 | Some c \<Rightarrow> c);
          usage' = AList.update today (AList.update k (cnt + 1) day) (usage_data self)
      in case map_of (api_keys self) k of
           None \<Rightarrow> (Inl (KeyError k), self\<lparr>usage_data := usage'\<rparr>)
         | Some kd \<Rightarrow>
             let keys' = AList.update k
                   (kd\<lparr>total_requests := total_requests kd + 1,
                       last_used := Some (isoformat now2)\<rparr>) (api_keys self)
             in (Inr (), self\<lparr>api_keys := keys', usage_data := usage',
                              USAGE_FILE := usage', API_KEYS_FILE := keys'\<rparr>))"

record key_stats =
  stats_api_key :: string
  stats_user_email :: string
  stats_plan_type :: string
  stats_today_usage :: int
  stats_daily_limit :: int
  stats_total_requests :: int
  stats_last_used :: "string option"
  stats_created_at :: string

definition get_key_stats :: "datetime \<Rightarrow> string \<Rightarrow> APIKeyManager \<Rightarrow> key_stats option" where
  "get_key_stats now k self =
     (case map_of (api_keys self) k of
        None \<Rightarrow> None
      | Some kd \<Rightarrow>
          let today = strftime_Ymd now;
              today_usage = dict_get (dict_get (usage_data self) today []) k 0
          in Some \<lparr>stats_api_key = k,
                   stats_user_email = user_email kd,
                   stats_plan_type = plan_type kd,
                   stats_today_usage = today_usage,
                   stats_daily_limit = requests_per_day kd,
                   stats_total_requests = total_requests kd,
                   stats_last_used = last_used kd,
                   stats_created_at = created_at kd\<rparr>)"


section \<open>Exceptions and JSON values\<close>

text \<open>
  An exception is known to the handlers of \<open>extract_json_from_url\<close> by two class tests
  and by \<open>str(e)\<close>: \<open>isinstance(e, requests.exceptions.RequestException)\<close> and
  \<open>isinstance(e, json.JSONDecodeError)\<close> (the error \<open>response.json()\<close> raises is both).
  Only subclasses of \<open>Exception\<close> are modelled, not \<open>KeyboardInterrupt\<close> or \<open>SystemExit\<close>.
\<close>

datatype exn = Exn (is_RequestException: bool) (is_JSONDecodeError: bool) (message: string)

text \<open>
  Text is a list of 8-bit characters holding UTF-8, so the ASCII delimiters the program
  looks for are single characters. A parsed number without fraction and exponent is a
  Python \<open>int\<close>; any other number is a \<open>float\<close>, kept as its literal (binary rounding
  is not modelled). An object is a dict: a repeated key keeps its first position and takes
  the last value.
\<close>

datatype json =
    JNull
  | JBool bool
  | JInt int
  | JFloat string
  | JString string
  | JArray "json list"
  | JObject "(string \<times> json) list"

section \<open>Reference model of \<open>json.loads\<close>\<close>

text \<open>
  The library functions the program calls are parameters of the model (record \<open>pylib\<close>
  below), so the general theorems hold for whatever the libraries do. The concrete examples
  run on reference models of the libraries; this one follows the scanner of CPython's
  \<open>json\<close> module: \<open>py_scanstring\<close>, the number pattern (an optional minus, \<open>0\<close> or
  a digit string without leading zero, an optional fraction, an optional exponent), the
  constants, arrays and objects. Its recursion limit and its limit on the digits of an
  \<open>int\<close> are not modelled. The text of a \<open>JSONDecodeError\<close> is never read by the
  program, so only two texts are used.
\<close>

definition starts_with :: "string \<Rightarrow> string \<Rightarrow> bool" where
  "starts_with p s = (take (length p) s = p)"

definition is_digit :: "char \<Rightarrow> bool" where
  "is_digit c = (c \<in> set ''0123456789'')"

definition json_ws :: "char \<Rightarrow> bool" where
  "json_ws c = (c \<in> {CHR '' '', CHR 0x09, CHR 0x0A, CHR 0x0D})"

definition skip_ws :: "string \<Rightarrow> string" where
  "skip_ws s = dropWhile json_ws s"

definition hex_val :: "char \<Rightarrow> nat option" where
  "hex_val c = map_of (zip ''0123456789abcdefABCDEF''
                  [0, 1, 2, 3, 4, 5, 6, 7, 8, 9, 10, 11, 12, 13, 14, 15, 10, 11, 12, 13, 14, 15]) c"

definition hex4 :: "char \<Rightarrow> char \<Rightarrow> char \<Rightarrow> char \<Rightarrow> nat option" where
  "hex4 a b c d =
     (case (hex_val a, hex_val b, hex_val c, hex_val d) of
        (Some x, Some y, Some z, Some w) \<Rightarrow> Some (((x * 16 + y) * 16 + z) * 16 + w)
      | _ \<Rightarrow> None)"

definition simple_escape :: "char \<Rightarrow> char option" where
  "simple_escape e =
     map_of [(CHR 0x22, CHR 0x22), (CHR 0x5C, CHR 0x5C), (CHR ''/'', CHR ''/''),
             (CHR ''b'', CHR 0x08), (CHR ''f'', CHR 0x0C), (CHR ''n'', CHR 0x0A),
             (CHR ''r'', CHR 0x0D), (CHR ''t'', CHR 0x09)] e"

text \<open>
  A string literal is read in two passes: \<open>scan_units\<close> finds the closing quote and
  checks the escapes, \<open>decode_units\<close> joins a surrogate pair of \<open>u\<close> escapes into
  one code point and writes code points in UTF-8.
\<close>

datatype str_unit = Byte char | Escaped nat

fun scan_units :: "string \<Rightarrow> (str_unit list \<times> string) option" where
  "scan_units [] = None"
| "scan_units (c # cs) =
     (if c = CHR 0x22 then Some ([], cs)
      else if c = CHR 0x5C then
        (case cs of
           [] \<Rightarrow> None
         | e # r \<Rightarrow>
             if e = CHR ''u'' then
               (case r of
                  h1 # h2 # h3 # h4 # r' \<Rightarrow>
                    (case hex4 h1 h2 h3 h4 of
                       None \<Rightarrow> None
                     | Some n \<Rightarrow> map_option (\<lambda>(us, rest). (Escaped n # us, rest)) (scan_units r'))
                | _ \<Rightarrow> None)
             else
               (case simple_escape e of
                  None \<Rightarrow> None
                | Some ch \<Rightarrow> map_option (\<lambda>(us, rest). (Byte ch # us, rest)) (scan_units r)))
      else if (of_char c :: nat) < 32 then None
      else map_option (\<lambda>(us, rest). (Byte c # us, rest)) (scan_units cs))"

definition utf8 :: "nat \<Rightarrow> string" where
  "utf8 n =
     (if n < 128 then [char_of n]
      else if n < 2048 then [char_of (192 + n div 64), char_of (128 + n mod 64)]
      else if n < 65536 then
        [char_of (224 + n div 4096), char_of (128 + n div 64 mod 64), char_of (128 + n mod 64)]
      else
        [char_of (240 + n div 262144), char_of (128 + n div 4096 mod 64),
         char_of (128 + n div 64 mod 64), char_of (128 + n mod 64)])"

fun decode_units :: "str_unit list \<Rightarrow> string" where
  "decode_units [] = []"
| "decode_units (Byte c # us) = c # decode_units us"
| "decode_units [Escaped n] = utf8 n"
| "decode_units (Escaped n # Byte c # us) = utf8 n @ c # decode_units us"
| "decode_units (Escaped n # Escaped m # us) =
     (if 55296 \<le> n \<and> n \<le> 56319 \<and> 56320 \<le> m \<and> m \<le> 57343
      then utf8 (65536 + (n - 55296) * 1024 + (m - 56320)) @ decode_units us
      else utf8 n @ decode_units (Escaped m # us))"

definition py_scanstring :: "string \<Rightarrow> (string \<times> string) option" where
  "py_scanstring s = map_option (\<lambda>(us, rest). (decode_units us, rest)) (scan_units s)"

definition digits_value :: "string \<Rightarrow> int" where
  "digits_value ds = foldl (\<lambda>acc c. 10 * acc + (int (of_char c) - 48)) 0 ds"

definition scan_sign :: "string \<Rightarrow> string \<times> string" where
  "scan_sign s =
     (case s of
        [] \<Rightarrow> ([], s)
      | c # r \<Rightarrow> if c = CHR ''-'' then (''-'', r) else ([], s))"

definition scan_frac :: "string \<Rightarrow> string \<times> string" where
  "scan_frac s =
     (case s of
        [] \<Rightarrow> ([], s)
      | c # r \<Rightarrow>
          if c = CHR ''.'' \<and> takeWhile is_digit r \<noteq> []
          then (c # takeWhile is_digit r, dropWhile is_digit r)
          else ([], s))"

definition scan_exp_sign :: "string \<Rightarrow> string \<times> string" where
  "scan_exp_sign s =
     (case s of
        [] \<Rightarrow> ([], s)
      | g # r \<Rightarrow> if g = CHR ''+'' \<or> g = CHR ''-'' then ([g], r) else ([], s))"

definition scan_exp :: "string \<Rightarrow> string \<times> string" where
  "scan_exp s =
     (case s of
        [] \<Rightarrow> ([], s)
      | c # r \<Rightarrow>
          if c = CHR ''e'' \<or> c = CHR ''E'' then
            (case scan_exp_sign r of
               (esign, r') \<Rightarrow>
                 if takeWhile is_digit r' \<noteq> []
                 then (c # esign @ takeWhile is_digit r', dropWhile is_digit r')
                 else ([], s))
          else ([], s))"

definition scan_number :: "string \<Rightarrow> (json \<times> string) option" where
  "scan_number s =
     (case scan_sign s of
        (neg, s1) \<Rightarrow>
          (case takeWhile is_digit s1 of
             [] \<Rightarrow> None
           | d # ds \<Rightarrow>
               let integer = (if d = CHR ''0'' then ''0'' else d # ds) in
               (case scan_frac (drop (length integer) s1) of
                  (frac, s3) \<Rightarrow>
                    (case scan_exp s3 of
                       (expo, s4) \<Rightarrow>
                         Some (if frac = [] \<and> expo = []
                               then JInt (if neg = [] then digits_value integer
                                          else - digits_value integer)
                               else JFloat (neg @ integer @ frac @ expo), s4)))))"

definition scan_constant :: "string \<Rightarrow> (json \<times> string) option" where
  "scan_constant s =
     (if starts_with ''null'' s then Some (JNull, drop 4 s)
      else if starts_with ''true'' s then Some (JBool True, drop 4 s)
      else if starts_with ''false'' s then Some (JBool False, drop 5 s)
      else case scan_number s of
             Some r \<Rightarrow> Some r
           | None \<Rightarrow>
               if starts_with ''NaN'' s then Some (JFloat ''NaN'', drop 3 s)
               else if starts_with ''Infinity'' s then Some (JFloat ''Infinity'', drop 8 s)
               else if starts_with ''-Infinity'' s then Some (JFloat ''-Infinity'', drop 9 s)
               else None)"

text \<open>What the scanners leave over is shorter than what they were given.\<close>

lemma scan_units_shorter: "scan_units s = Some (us, r) \<Longrightarrow> length r < length s"
proof (induction s arbitrary: us r rule: scan_units.induct)
  case 1
  then show ?case by simp
next
  case (2 c cs)
  then show ?case
    by (auto split: if_splits list.splits option.splits) fastforce+
qed

lemma py_scanstring_shorter: "py_scanstring s = Some (k, r) \<Longrightarrow> length r < length s"
  by (auto simp: py_scanstring_def dest: scan_units_shorter)

lemma skip_ws_length: "length (skip_ws s) \<le> length s"
  by (simp add: skip_ws_def length_dropWhile_le)

lemma skip_ws_Cons: "skip_ws s = c # r \<Longrightarrow> length r < length s"
  using skip_ws_length [of s] by simp

lemma starts_with_length: "starts_with p s \<Longrightarrow> length p \<le> length s"
  by (metis starts_with_def length_take min.cobounded1)

lemma scan_sign_length: "scan_sign s = (m, r) \<Longrightarrow> length r \<le> length s"
  by (auto simp: scan_sign_def split: list.splits if_splits)

lemma scan_exp_sign_length: "scan_exp_sign s = (m, r) \<Longrightarrow> length r \<le> length s"
  by (auto simp: scan_exp_sign_def split: list.splits if_splits)

lemma scan_frac_length:
  assumes "scan_frac s = (f, r)"
  shows "length r \<le> length s"
proof (cases s)
  case Nil
  with assms show ?thesis by (simp add: scan_frac_def)
next
  case (Cons c cs)
  with assms length_dropWhile_le [of is_digit cs] show ?thesis
    by (auto simp: scan_frac_def split: if_splits)
qed

lemma scan_exp_length:
  assumes "scan_exp s = (e, r)"
  shows "length r \<le> length s"
proof (cases s)
  case Nil
  with assms show ?thesis by (simp add: scan_exp_def)
next
  case (Cons c cs)
  obtain esign r' where sg: "scan_exp_sign cs = (esign, r')" by (cases "scan_exp_sign cs")
  from scan_exp_sign_length [OF sg] length_dropWhile_le [of is_digit r']
  have "length (dropWhile is_digit r') \<le> length cs" by simp
  with assms Cons sg show ?thesis
    by (auto simp: scan_exp_def split: if_splits)
qed

lemma scan_number_shorter: "scan_number s = Some (v, r) \<Longrightarrow> length r < length s"
proof -
  assume a: "scan_number s = Some (v, r)"
  obtain neg s1 where m: "scan_sign s = (neg, s1)" by (cases "scan_sign s")
  from a m obtain d ds where ds: "takeWhile is_digit s1 = d # ds"
    by (auto simp: scan_number_def split: list.splits)
  let ?integer = "if d = CHR ''0'' then ''0'' else d # ds"
  obtain frac s3 where f: "scan_frac (drop (length ?integer) s1) = (frac, s3)"
    by (cases "scan_frac (drop (length ?integer) s1)")
  obtain expo s4 where e: "scan_exp s3 = (expo, s4)" by (cases "scan_exp s3")
  from a m ds f e have r: "r = s4"
    by (simp add: scan_number_def Let_def)
  have "s1 \<noteq> []" using ds by auto
  then have "length (drop (length ?integer) s1) < length s1" by simp
  with scan_frac_length [OF f] scan_exp_length [OF e] scan_sign_length [OF m] r
  show ?thesis by simp
qed

lemma scan_constant_shorter: "scan_constant s = Some (v, r) \<Longrightarrow> length r < length s"
proof -
  assume a: "scan_constant s = Some (v, r)"
  have d: "length (drop (length p) s) < length s" if "starts_with p s" "p \<noteq> []" for p
  proof -
    from that have "0 < length p" and "length p \<le> length s"
      by (simp_all add: starts_with_length)
    then show ?thesis unfolding length_drop by arith
  qed
  show ?thesis
  proof (cases "scan_number s")
    case (Some x)
    with a d [of "''null''"] d [of "''true''"] d [of "''false''"] scan_number_shorter [of s v r]
    show ?thesis
      by (auto simp: scan_constant_def split: if_splits)
  next
    case None
    with a d [of "''null''"] d [of "''true''"] d [of "''false''"] d [of "''NaN''"]
      d [of "''Infinity''"] d [of "''-Infinity''"]
    show ?thesis
      by (auto simp: scan_constant_def split: if_splits)
  qed
qed

text \<open>
  \<open>py_scan_once\<close> reads one value at the start of its input and returns it with the
  input left over. \<open>py_parse_array\<close> and \<open>py_parse_object\<close> are the loops of
  \<open>JSONArray\<close> and \<open>JSONObject\<close> past the opening bracket, entered at the first element
  or key. The two tests \<open>length r < length s\<close> always hold (lemma \<open>py_scan_once_shorter\<close>).
\<close>

function py_scan_once :: "string \<Rightarrow> (json \<times> string) option"
  and py_parse_array :: "json list \<Rightarrow> string \<Rightarrow> (json \<times> string) option"
  and py_parse_object :: "(string \<times> json) list \<Rightarrow> string \<Rightarrow> (json \<times> string) option"
  where
  "py_scan_once s =
     (case s of
        [] \<Rightarrow> None
      | c # r \<Rightarrow>
          if c = CHR 0x22 then map_option (\<lambda>(k, rest). (JString k, rest)) (py_scanstring r)
          else if c = CHR ''{'' then
            (case skip_ws r of
               [] \<Rightarrow> None
             | c2 # r2 \<Rightarrow> if c2 = CHR ''}'' then Some (JObject [], r2)
                          else py_parse_object [] (skip_ws r))
          else if c = CHR ''['' then
            (case skip_ws r of
               [] \<Rightarrow> None
             | c2 # r2 \<Rightarrow> if c2 = CHR '']'' then Some (JArray [], r2)
                          else py_parse_array [] (skip_ws r))
          else scan_constant s)"
| "py_parse_array acc s =
     (case py_scan_once s of
        None \<Rightarrow> None
      | Some (v, r) \<Rightarrow>
          if length r < length s then
            (case skip_ws r of
               [] \<Rightarrow> None
             | c # r2 \<Rightarrow>
                 if c = CHR '']'' then Some (JArray (acc @ [v]), r2)
                 else if c = CHR '','' then py_parse_array (acc @ [v]) (skip_ws r2)
                 else None)
          else None)"
| "py_parse_object acc s =
     (case s of
        [] \<Rightarrow> None
      | q # r \<Rightarrow>
          if q \<noteq> CHR 0x22 then None
          else
            (case py_scanstring r of
               None \<Rightarrow> None
             | Some (key, r1) \<Rightarrow>
                 (case skip_ws r1 of
                    [] \<Rightarrow> None
                  | c # r2 \<Rightarrow>
                      if c \<noteq> CHR '':'' then None
                      else
                        (case py_scan_once (skip_ws r2) of
                           None \<Rightarrow> None
                         | Some (v, r3) \<Rightarrow>
                             if length r3 < length s then
                               (case skip_ws r3 of
                                  [] \<Rightarrow> None
                                | c3 # r4 \<Rightarrow>
                                    if c3 = CHR ''}''
                                    then Some (JObject (AList.update key v acc), r4)
                                    else if c3 = CHR '',''
                                    then py_parse_object (AList.update key v acc) (skip_ws r4)
                                    else None)
                             else None))))"
  by pat_completeness auto
termination
proof (relation "measure (\<lambda>x. case x of
           Inl s \<Rightarrow> 2 * length s
         | Inr (Inl (acc, s)) \<Rightarrow> 2 * length s + 1
         | Inr (Inr (acc, s)) \<Rightarrow> 2 * length s + 1)", goal_cases)
  case 1
  then show ?case by simp
next
  case (2 s c r c2 r2)
  then show ?case using skip_ws_length [of r] by simp
next
  case (3 s c r c2 r2)
  then show ?case using skip_ws_length [of r] by simp
next
  case (4 acc s)
  then show ?case by simp
next
  case (5 acc s x v r c r2)
  then show ?case using skip_ws_Cons [of r c r2] skip_ws_length [of r2] by simp
next
  case (6 acc s q r x key r1 c r2)
  then show ?case
    using py_scanstring_shorter [of r key r1] skip_ws_Cons [of r1 c r2] skip_ws_length [of r2]
    by simp
next
  case (7 acc s q r x key r1 c r2 y v r3 c3 r4)
  then show ?case using skip_ws_Cons [of r3 c3 r4] skip_ws_length [of r4] by simp
qed

definition py_json_loads :: "string \<Rightarrow> exn + json" where
  "py_json_loads s =
     (case py_scan_once (skip_ws s) of
        None \<Rightarrow> Inl (Exn False True ''Expecting value'')
      | Some (v, r) \<Rightarrow>
          if skip_ws r = [] then Inr v else Inl (Exn False True ''Extra data''))"

lemma py_scan_once_shorter:
  "py_scan_once s = Some (v, r) \<Longrightarrow> length r < length s"
  "py_parse_array acc s = Some (v, r) \<Longrightarrow> length r < length s"
  "py_parse_object kvs s = Some (v, r) \<Longrightarrow> length r < length s"
proof (induction s and acc s and kvs s arbitrary: v r and v r and v r
    rule: py_scan_once_py_parse_array_py_parse_object.induct)
  case (1 s)
  show ?case
  proof (cases s)
    case Nil
    with "1.prems" show ?thesis by simp
  next
    case (Cons c cs)
    note s = Cons
    consider (str) "c = CHR 0x22" | (obj) "c \<noteq> CHR 0x22" "c = CHR ''{''"
      | (arr) "c \<noteq> CHR 0x22" "c \<noteq> CHR ''{''" "c = CHR ''[''"
      | (const) "c \<noteq> CHR 0x22" "c \<noteq> CHR ''{''" "c \<noteq> CHR ''[''"
      by blast
    then show ?thesis
    proof cases
      case str
      with "1.prems" s show ?thesis
        by (auto dest: py_scanstring_shorter)
    next
      case obj
      show ?thesis
      proof (cases "skip_ws cs")
        case Nil
        with "1.prems" s obj show ?thesis by simp
      next
        case (Cons c2 r2)
        show ?thesis
        proof (cases "c2 = CHR ''}''")
          case True
          with "1.prems" s obj Cons skip_ws_Cons [of cs c2 r2] show ?thesis by auto
        next
          case False
          with "1.prems" s obj Cons have "py_parse_object [] (skip_ws cs) = Some (v, r)" by simp
          from "1.IH"(1) [OF s obj(1) obj(2) Cons False this] skip_ws_length [of cs] s
          show ?thesis by simp
        qed
      qed
    next
      case arr
      show ?thesis
      proof (cases "skip_ws cs")
        case Nil
        with "1.prems" s arr show ?thesis by simp
      next
        case (Cons c2 r2)
        show ?thesis
        proof (cases "c2 = CHR '']''")
          case True
          with "1.prems" s arr Cons skip_ws_Cons [of cs c2 r2] show ?thesis by auto
        next
          case False
          with "1.prems" s arr Cons have "py_parse_array [] (skip_ws cs) = Some (v, r)" by simp
          from "1.IH"(2) [OF s arr(1) arr(2) arr(3) Cons False this] skip_ws_length [of cs] s
          show ?thesis by simp
        qed
      qed
    next
      case const
      with "1.prems" s have "scan_constant s = Some (v, r)" by simp
      then show ?thesis by (rule scan_constant_shorter)
    qed
  qed
next
  case (2 acc s)
  from "2.prems" obtain v1 r1 where a: "py_scan_once s = Some (v1, r1)"
    by (auto split: option.splits)
  from "2.prems" a have lt: "length r1 < length s" by (auto split: if_splits)
  from "2.prems" a lt obtain c r2 where sk: "skip_ws r1 = c # r2"
    by (auto split: list.splits)
  show ?case
  proof (cases "c = CHR '']''")
    case True
    with "2.prems" a lt sk skip_ws_Cons [of r1 c r2] show ?thesis by auto
  next
    case False
    with "2.prems" a lt sk have c: "c = CHR '',''"
      and rec: "py_parse_array (acc @ [v1]) (skip_ws r2) = Some (v, r)"
      by (auto split: if_splits)
    have "length r < length (skip_ws r2)"
      using "2.IH"(2) a lt sk False c rec by simp
    with skip_ws_length [of r2] skip_ws_Cons [OF sk] lt show ?thesis by simp
  qed
next
  case (3 kvs s)
  from "3.prems" obtain q cs where s: "s = q # cs" and q: "q = CHR 0x22"
    by (auto split: list.splits if_splits)
  from "3.prems" s q obtain key r1 where k: "py_scanstring cs = Some (key, r1)"
    by (auto split: option.splits)
  from "3.prems" s q k obtain c r2 where sk: "skip_ws r1 = c # r2" and c: "c = CHR '':''"
    by (auto split: list.splits if_splits)
  from "3.prems" s q k sk c obtain v1 r3 where a: "py_scan_once (skip_ws r2) = Some (v1, r3)"
    by (auto split: option.splits)
  from "3.prems" s q k sk c a have lt: "length r3 < length s"
    by (auto split: if_splits)
  from "3.prems" s q k sk c a lt obtain c3 r4 where sk3: "skip_ws r3 = c3 # r4"
    by (auto split: list.splits)
  show ?case
  proof (cases "c3 = CHR ''}''")
    case True
    with "3.prems" s q k sk c a lt sk3 skip_ws_Cons [of r3 c3 r4] show ?thesis by auto
  next
    case False
    with "3.prems" s q k sk c a lt sk3 have c3: "c3 = CHR '',''"
      and rec: "py_parse_object (AList.update key v1 kvs) (skip_ws r4) = Some (v, r)"
      by (auto split: if_splits)
    have "length r < length (skip_ws r4)"
      using "3.IH"(2) s q k sk c a lt sk3 False c3 rec by simp
    with skip_ws_length [of r4] skip_ws_Cons [OF sk3] lt show ?thesis by simp
  qed
qed

section \<open>Reference model of \<open>re.findall\<close>\<close>

text \<open>
  The three patterns of \<open>find_json_objects\<close> are sequences of two kinds of item: a
  literal character, and a greedy star over a negated character class. \<open>re_match\<close> is
  the backtracking matcher of \<open>re\<close> on such a sequence, at the start of its input: a star
  takes as many characters as it can and gives them back one at a time while the rest of
  the pattern fails. \<open>py_findall\<close> scans from left to right, taking each match where it
  is found and going on behind it (one character on after an empty match).
\<close>

datatype re_item = Lit char | StarNot "char list"

type_synonym regex = "re_item list"

fun re_match :: "regex \<Rightarrow> string \<Rightarrow> string option" where
  "re_match [] s = Some []"
| "re_match (Lit c # p) [] = None"
| "re_match (Lit c # p) (x # xs) =
     (if x = c then map_option ((#) x) (re_match p xs) else None)"
| "re_match (StarNot cs # p) [] = re_match p []"
| "re_match (StarNot cs # p) (x # xs) =
     (if x \<notin> set cs
      then (case re_match (StarNot cs # p) xs of
              Some m \<Rightarrow> Some (x # m)
            | None \<Rightarrow> re_match p (x # xs))
      else re_match p (x # xs))"

function py_findall :: "regex \<Rightarrow> string \<Rightarrow> string list" where
  "py_findall p [] = (case re_match p [] of None \<Rightarrow> [] | Some m \<Rightarrow> [m])"
| "py_findall p (x # xs) =
     (case re_match p (x # xs) of
        None \<Rightarrow> py_findall p xs
      | Some m \<Rightarrow> m # (if m = [] then py_findall p xs
                       else py_findall p (drop (length m) (x # xs))))"
  by pat_completeness auto
termination
  by (relation "measure (\<lambda>(p, s). length s)") (auto simp: neq_Nil_conv)

section \<open>Reference model of the script elements BeautifulSoup finds\<close>

text \<open>
  \<open>BeautifulSoup(html, 'html.parser').find_all('script')\<close> is modelled by what the
  program reads of each script element: \<open>script.get('type')\<close> and \<open>script.string\<close>
  (\<open>None\<close> for an element without text). The reference model follows \<open>html.parser\<close> of
  CPython 3.11 on a fragment of markup: text, comments, declarations, processing
  instructions, end tags and start tags with quoted, bare or missing attribute values. Tag
  and attribute names are lowered, a repeated attribute takes its last value, the text of a
  script or style element runs up to its own end tag, and a script element that is never
  closed is found without text.

  The model is partial. It gives no answer (\<open>None\<close>) for markup on which the library does
  more than the fragment describes: a marked section \<^verbatim>\<open><![\<close>, a character
  reference \<^verbatim>\<open>&#\<close> or an entity name that runs to the end in text, an
  ampersand in an attribute value (the library decodes it), a quote where an attribute name
  is expected, an equals sign where a value is expected, a NUL in a tag name, a script
  whose text is white space only (BeautifulSoup collapses it), and markup that ends inside
  a tag, a comment, a declaration or an end tag. Outside plain text it covers ASCII only:
  a character beyond ASCII in a tag, a comment or a script is not answered either (the
  library matches white space and letter case by Unicode there).
\<close>

record script_tag =
  tag_type :: "string option"
  tag_string :: "string option"

definition is_alpha :: "char \<Rightarrow> bool" where
  "is_alpha c = (c \<in> set ''abcdefghijklmnopqrstuvwxyzABCDEFGHIJKLMNOPQRSTUVWXYZ'')"

definition lower :: "char \<Rightarrow> char" where
  "lower c = (case map_of (zip ''ABCDEFGHIJKLMNOPQRSTUVWXYZ'' ''abcdefghijklmnopqrstuvwxyz'') c of
                None \<Rightarrow> c | Some l \<Rightarrow> l)"

text \<open>White space of the regular expressions of the parser (on ASCII, the six white
  space characters and the four separator controls), and white space of HTML.\<close>

definition is_space :: "char \<Rightarrow> bool" where
  "is_space c = (c \<in> {CHR '' '', CHR 0x09, CHR 0x0A, CHR 0x0B, CHR 0x0C, CHR 0x0D,
                       CHR 0x1C, CHR 0x1D, CHR 0x1E, CHR 0x1F})"

definition is_html_space :: "char \<Rightarrow> bool" where
  "is_html_space c = (c \<in> {CHR '' '', CHR 0x09, CHR 0x0A, CHR 0x0C, CHR 0x0D})"

definition is_quote :: "char \<Rightarrow> bool" where
  "is_quote c = (c = CHR 0x22 \<or> c = CHR 0x27)"

datatype hstate =
    Data
  | TagOpen
  | MarkupDecl nat
  | Comment
  | Skip
  | TagName string
  | BeforeAttr string "(string \<times> string) list"
  | AttrName string "(string \<times> string) list" string
  | AfterAttrName string "(string \<times> string) list" string
  | BeforeValue string "(string \<times> string) list" string
  | QuotedValue string "(string \<times> string) list" string char string
  | BareValue string "(string \<times> string) list" string string
  | SlashInTag string "(string \<times> string) list"
  | RawText string "(string \<times> string) list" string

definition script_element :: "(string \<times> string) list \<Rightarrow> string \<Rightarrow> script_tag" where
  "script_element attrs content =
     \<lparr>tag_type = map_of attrs ''type'',
      tag_string = (if content = [] then None else Some content)\<rparr>"

definition end_of_start_tag :: "string \<Rightarrow> (string \<times> string) list \<Rightarrow> hstate" where
  "end_of_start_tag name attrs =
     (if name = ''script'' \<or> name = ''style'' then RawText name attrs [] else Data)"

definition add_attr :: "string \<Rightarrow> string \<Rightarrow> (string \<times> string) list \<Rightarrow> (string \<times> string) list" where
  "add_attr name v attrs = AList.update (map lower name) v attrs"

definition comment_close :: "string \<Rightarrow> bool" where
  "comment_close s =
     (starts_with ''--'' s \<and>
      (case dropWhile is_space (drop 2 s) of [] \<Rightarrow> False | g # _ \<Rightarrow> g = CHR ''>''))"

definition closes :: "string \<Rightarrow> string \<Rightarrow> bool" where
  "closes name rest =
     (case rest of
        [] \<Rightarrow> False
      | s # r \<Rightarrow>
          s = CHR ''/'' \<and>
          (let r1 = dropWhile is_space r;
               nm = takeWhile is_alpha r1
           in map lower nm = name \<and>
              (case dropWhile is_space (drop (length nm) r1) of
                 [] \<Rightarrow> False
               | g # _ \<Rightarrow> g = CHR ''>'')))"

text \<open>An ampersand in text stays text when what follows is neither \<open>#\<close> nor a name that
  runs to the end.\<close>

definition plain_ampersand :: "string \<Rightarrow> bool" where
  "plain_ampersand rest =
     (case rest of
        [] \<Rightarrow> True
      | c # _ \<Rightarrow>
          if c = CHR ''#'' then False
          else if is_alpha c
          then dropWhile (\<lambda>d. is_alpha d \<or> is_digit d \<or> d = CHR ''-'' \<or> d = CHR ''.'') rest \<noteq> []
          else True)"

definition text_step :: "char \<Rightarrow> string \<Rightarrow> (hstate \<times> script_tag list) option" where
  "text_step c rest =
     (if c = CHR ''<'' then Some (TagOpen, [])
      else if c = CHR ''&'' \<and> \<not> plain_ampersand rest then None
      else Some (Data, []))"

definition html_step :: "hstate \<Rightarrow> char \<Rightarrow> string \<Rightarrow> (hstate \<times> script_tag list) option" where
  "html_step st c rest =
     (if 128 \<le> (of_char c :: nat) \<and> st \<noteq> Data \<and> st \<noteq> TagOpen then None
      else case st of
        Data \<Rightarrow> text_step c rest
      | TagOpen \<Rightarrow>
          (if is_alpha c then Some (TagName [c], [])
           else if c = CHR ''!'' then Some (MarkupDecl 0, [])
           else if c = CHR ''/'' \<or> c = CHR ''?'' then Some (Skip, [])
           else text_step c rest)
      | MarkupDecl n \<Rightarrow>
          (if c = CHR ''-'' then Some (if n = 0 then MarkupDecl 1 else Comment, [])
           else if c = CHR ''['' \<and> n = 0 then None
           else if c = CHR ''>'' then Some (Data, [])
           else Some (Skip, []))
      | Comment \<Rightarrow> Some (if comment_close (c # rest) then Skip else Comment, [])
      | Skip \<Rightarrow> Some (if c = CHR ''>'' then Data else Skip, [])
      | TagName nm \<Rightarrow>
          (if c = CHR 0x00 then None
           else if c = CHR ''/'' then Some (SlashInTag (map lower nm) [], [])
           else if c = CHR ''>'' then Some (end_of_start_tag (map lower nm) [], [])
           else if is_html_space c then Some (BeforeAttr (map lower nm) [], [])
           else Some (TagName (nm @ [c]), []))
      | BeforeAttr t attrs \<Rightarrow>
          (if is_space c then Some (BeforeAttr t attrs, [])
           else if c = CHR ''/'' then Some (SlashInTag t attrs, [])
           else if c = CHR ''>'' then Some (end_of_start_tag t attrs, [])
           else if is_quote c then None
           else Some (AttrName t attrs [c], []))
      | AttrName t attrs nm \<Rightarrow>
          (if is_space c then Some (AfterAttrName t attrs nm, [])
           else if c = CHR ''='' then Some (BeforeValue t attrs nm, [])
           else if c = CHR ''/'' then Some (SlashInTag t (add_attr nm [] attrs), [])
           else if c = CHR ''>'' then Some (end_of_start_tag t (add_attr nm [] attrs), [])
           else if is_quote c then None
           else Some (AttrName t attrs (nm @ [c]), []))
      | AfterAttrName t attrs nm \<Rightarrow>
          (if is_space c then Some (AfterAttrName t attrs nm, [])
           else if c = CHR ''='' then Some (BeforeValue t attrs nm, [])
           else if c = CHR ''/'' then Some (SlashInTag t (add_attr nm [] attrs), [])
           else if c = CHR ''>'' then Some (end_of_start_tag t (add_attr nm [] attrs), [])
           else if is_quote c then None
           else Some (AttrName t (add_attr nm [] attrs) [c], []))
      | BeforeValue t attrs nm \<Rightarrow>
          (if is_space c then Some (BeforeValue t attrs nm, [])
           else if is_quote c then Some (QuotedValue t attrs nm c [], [])
           else if c = CHR ''>'' then Some (end_of_start_tag t (add_attr nm [] attrs), [])
           else if c = CHR ''='' \<or> c = CHR ''&'' then None
           else Some (BareValue t attrs nm [c], []))
      | QuotedValue t attrs nm q v \<Rightarrow>
          (if c = q then Some (BeforeAttr t (add_attr nm v attrs), [])
           else if c = CHR ''&'' then None
           else Some (QuotedValue t attrs nm q (v @ [c]), []))
      | BareValue t attrs nm v \<Rightarrow>
          (if is_space c then Some (BeforeAttr t (add_attr nm v attrs), [])
           else if c = CHR ''>'' then Some (end_of_start_tag t (add_attr nm v attrs), [])
           else if c = CHR ''&'' then None
           else Some (BareValue t attrs nm (v @ [c]), []))
      | SlashInTag t attrs \<Rightarrow>
          (if c = CHR ''>'' then Some (Data, if t = ''script'' then [script_element attrs []] else [])
           else if is_space c then Some (BeforeAttr t attrs, [])
           else if c = CHR ''/'' then Some (SlashInTag t attrs, [])
           else if is_quote c then None
           else Some (AttrName t attrs [c], []))
      | RawText t attrs acc \<Rightarrow>
          (if c = CHR ''<'' \<and> closes t rest
           then (if t = ''script'' \<and> acc \<noteq> [] \<and> list_all is_html_space acc then None
                 else Some (Skip, if t = ''script'' then [script_element attrs acc] else []))
           else Some (RawText t attrs (acc @ [c]), [])))"

definition html_eof :: "hstate \<Rightarrow> script_tag list option" where
  "html_eof st =
     (case st of
        Data \<Rightarrow> Some []
      | TagOpen \<Rightarrow> Some []
      | RawText t attrs acc \<Rightarrow> Some (if t = ''script'' then [script_element attrs []] else [])
      | _ \<Rightarrow> None)"

fun html_scan :: "hstate \<Rightarrow> string \<Rightarrow> script_tag list option" where
  "html_scan st [] = html_eof st"
| "html_scan st (c # cs) =
     (case html_step st c cs of
        None \<Rightarrow> None
      | Some (st', out) \<Rightarrow>
          (case html_scan st' cs of None \<Rightarrow> None | Some found \<Rightarrow> Some (out @ found)))"

definition py_find_all_script :: "string \<Rightarrow> exn + script_tag list" where
  "py_find_all_script html =
     (case html_scan Data html of
        None \<Rightarrow> Inl (Exn False False ''markup outside the reference model'')
      | Some tags \<Rightarrow> Inr tags)"

section \<open>Reference model of \<open>urlparse(url).scheme\<close>\<close>

text \<open>
  After \<open>urlsplit\<close> of CPython 3.11: leading control characters and spaces are stripped,
  tabs and line breaks removed; the text before the first colon is the scheme, lowered, when
  it starts with an ASCII letter and holds only letters, digits, \<open>+\<close>, \<open>-\<close> and \<open>.\<close>. A
  network location with one square bracket and not the other raises \<open>ValueError\<close>. The
  model is partial: for a network location with both brackets or with a character outside
  ASCII the library validates further, and the model gives no answer (\<open>None\<close>).
\<close>

definition scheme_char :: "char \<Rightarrow> bool" where
  "scheme_char c = (is_alpha c \<or> is_digit c \<or> c \<in> {CHR ''+'', CHR ''-'', CHR ''.''})"

definition urlsplit_scheme :: "string \<Rightarrow> (exn + string) option" where
  "urlsplit_scheme u =
     (let u1 = dropWhile (\<lambda>c. (of_char c :: nat) \<le> 32) u;
          u2 = filter (\<lambda>c. c \<notin> {CHR 0x09, CHR 0x0A, CHR 0x0D}) u1;
          pre = takeWhile (\<lambda>c. c \<noteq> CHR '':'') u2;
          has_scheme = (length pre < length u2 \<and>
                        (case pre of [] \<Rightarrow> False | c # _ \<Rightarrow> is_alpha c) \<and> list_all scheme_char pre);
          rest = (if has_scheme then drop (length pre + 1) u2 else u2);
          netloc = (if starts_with ''//'' rest
                    then takeWhile (\<lambda>c. c \<notin> {CHR ''/'', CHR ''?'', CHR ''#''}) (drop 2 rest)
                    else [])
      in if (CHR ''['' \<in> set netloc) \<noteq> (CHR '']'' \<in> set netloc)
         then Some (Inl (Exn False False ''Invalid IPv6 URL''))
         else if CHR ''['' \<in> set netloc \<or> \<not> list_all (\<lambda>c. (of_char c :: nat) < 128) netloc
         then None
         else Some (Inr (if has_scheme then map lower pre else [])))"

definition py_urlparse_scheme :: "string \<Rightarrow> exn + string" where
  "py_urlparse_scheme u =
     (case urlsplit_scheme u of
        None \<Rightarrow> Inl (Exn False False ''URL outside the reference model'')
      | Some r \<Rightarrow> r)"

section \<open>UniversalJSONExtractor\<close>

text \<open>
  What the program reads of a \<open>requests.Response\<close>: the status line, the
  \<open>content-type\<close> header, \<open>len(response.content)\<close> and \<open>response.text\<close>.
  \<open>raise_for_status\<close> raises \<open>HTTPError\<close>, a \<open>RequestException\<close>, for a status from
  400 to 599.
\<close>

record response =
  status_code :: nat
  reason :: string
  response_url :: string
  header_content_type :: "string option"
  content_length :: nat
  response_text :: string

fun decimal :: "nat \<Rightarrow> string" where
  "decimal n = (if n < 10 then [char_of (48 + n)] else decimal (n div 10) @ [char_of (48 + n mod 10)])"

declare decimal.simps [simp del]

definition raise_for_status :: "response \<Rightarrow> exn + unit" where
  "raise_for_status r =
     (if 400 \<le> status_code r \<and> status_code r < 500
      then Inl (Exn True False (decimal (status_code r) @ '' Client Error: '' @ reason r
                  @ '' for url: '' @ response_url r))
      else if 500 \<le> status_code r \<and> status_code r < 600
      then Inl (Exn True False (decimal (status_code r) @ '' Server Error: '' @ reason r
                  @ '' for url: '' @ response_url r))
      else Inr ())"

text \<open>
  The library calls of the extractor. Each may raise, except \<open>re.findall\<close> on a fixed,
  valid pattern. \<open>session_get\<close> is \<open>self.session.get(url, timeout=15,
  allow_redirects=True)\<close>; \<open>find_all_script\<close> is
  \<open>BeautifulSoup(html_content, 'html.parser').find_all('script')\<close>.
\<close>

record pylib =
  urlparse_scheme :: "string \<Rightarrow> exn + string"
  session_get :: "string \<Rightarrow> exn + response"
  response_json :: "response \<Rightarrow> exn + json"
  find_all_script :: "string \<Rightarrow> exn + script_tag list"
  json_loads :: "string \<Rightarrow> exn + json"
  re_findall :: "regex \<Rightarrow> string \<Rightarrow> string list"

text \<open>
  An entry of \<open>json_objects\<close> is a dict with the keys \<open>type\<close> and \<open>data\<close>, and
  \<open>script_type\<close> for the entries of the script-tag method only. \<open>size_kb\<close> is held in
  hundredths: \<open>round(n / 1024, 2)\<close> rounds the exact quotient to two decimals, a tie to
  the even digit.
\<close>

record json_object =
  object_type :: string
  object_data :: json
  script_type :: "string option"

record results =
  success :: bool
  url :: string
  data :: "json option"
  json_objects :: "json_object list"
  error :: "string option"
  content_type :: "string option"
  size_kb :: nat
  extraction_method :: "string option"
  timestamp :: string

fun contains :: "string \<Rightarrow> string \<Rightarrow> bool" where
  "contains sub [] = (sub = [])"
| "contains sub (c # cs) = (starts_with sub (c # cs) \<or> contains sub cs)"

definition round_kb :: "nat \<Rightarrow> nat" where
  "round_kb n =
     (let q = (100 * n) div 1024; r = (100 * n) mod 1024
      in if r > 512 \<or> (r = 512 \<and> odd q) then q + 1 else q)"

text \<open>
  The patterns of \<open>find_json_objects\<close>, in the order of the source list:
  \<^item> \<^verbatim>\<open>\{[^{}]*\{[^{}]*\}[^{}]*\}\<close>: an opening brace, a run without braces, a braced
    group without braces inside, a run without braces, a closing brace;
  \<^item> \<^verbatim>\<open>\{[^{}]*"[^{}]*":[^{}]*\}[^{}]*\<close>: an opening brace, a run without braces, a
    double quote, a run without braces, a double quote and a colon, a run without braces, a
    closing brace, a run without braces;
  \<^item> \<^verbatim>\<open>\[[^\[\]]*\{[^\[\]]*\}[^\[\]]*\]\<close>: an opening bracket, a run without
    brackets, an opening brace, a run without brackets, a closing brace, a run without
    brackets, a closing bracket.
\<close>

definition patterns :: "regex list" where
  "patterns =
     [[Lit CHR ''{'', StarNot ''{}'', Lit CHR ''{'', StarNot ''{}'', Lit CHR ''}'', StarNot ''{}'',
       Lit CHR ''}''],
      [Lit CHR ''{'', StarNot ''{}'', Lit CHR 0x22, StarNot ''{}'', Lit CHR 0x22, Lit CHR '':'',
       StarNot ''{}'', Lit CHR ''}'', StarNot ''{}''],
      [Lit CHR ''['', StarNot ''[]'', Lit CHR ''{'', StarNot ''[]'', Lit CHR ''}'', StarNot ''[]'',
       Lit CHR '']'']]"

definition find_json_objects :: "pylib \<Rightarrow> string \<Rightarrow> string list" where
  "find_json_objects L txt = fold (\<lambda>pattern matches. matches @ re_findall L pattern txt) patterns []"

text \<open>
  The inner loop over the matches, shared by the script-tag and the text method: a match
  that \<open>json.loads\<close> rejects, with whatever exception, is skipped by the bare
  \<open>except\<close>.
\<close>

fun parse_matches :: "pylib \<Rightarrow> (json \<Rightarrow> json_object) \<Rightarrow> string list \<Rightarrow> json_object list" where
  "parse_matches L mk [] = []"
| "parse_matches L mk (json_match # rest) =
     (case json_loads L json_match of
        Inr json_data \<Rightarrow> mk json_data # parse_matches L mk rest
      | Inl e \<Rightarrow> parse_matches L mk rest)"

fun script_tags_loop :: "pylib \<Rightarrow> script_tag list \<Rightarrow> json_object list" where
  "script_tags_loop L [] = []"
| "script_tags_loop L (script # rest) =
     (case tag_string script of
        None \<Rightarrow> script_tags_loop L rest
      | Some script_content \<Rightarrow>
          if script_content = [] then script_tags_loop L rest
          else parse_matches L
                 (\<lambda>json_data. \<lparr>object_type = ''script_tag'', object_data = json_data,
                     script_type = Some (case tag_type script of None \<Rightarrow> ''unknown'' | Some t \<Rightarrow> t)\<rparr>)
                 (find_json_objects L script_content)
               @ script_tags_loop L rest)"

definition extract_json_from_script_tags :: "pylib \<Rightarrow> string \<Rightarrow> exn + json_object list" where
  "extract_json_from_script_tags L html_content =
     (case find_all_script L html_content of
        Inl e \<Rightarrow> Inl e
      | Inr script_tags \<Rightarrow> Inr (script_tags_loop L script_tags))"

fun json_ld_loop :: "pylib \<Rightarrow> script_tag list \<Rightarrow> json_object list" where
  "json_ld_loop L [] = []"
| "json_ld_loop L (script # rest) =
     (case tag_string script of
        None \<Rightarrow> json_ld_loop L rest
      | Some s \<Rightarrow>
          if s = [] then json_ld_loop L rest
          else (case json_loads L s of
                  Inr json_data \<Rightarrow>
                    \<lparr>object_type = ''json_ld'', object_data = json_data, script_type = None\<rparr>
                      # json_ld_loop L rest
                | Inl e \<Rightarrow> json_ld_loop L rest))"

definition extract_json_ld :: "pylib \<Rightarrow> string \<Rightarrow> exn + json_object list" where
  "extract_json_ld L html_content =
     (case find_all_script L html_content of
        Inl e \<Rightarrow> Inl e
      | Inr script_tags \<Rightarrow>
          Inr (json_ld_loop L
                 (filter (\<lambda>script. tag_type script = Some ''application/ld+json'') script_tags)))"

definition extract_json_from_text :: "pylib \<Rightarrow> string \<Rightarrow> json_object list" where
  "extract_json_from_text L txt =
     parse_matches L
       (\<lambda>json_data. \<lparr>object_type = ''text_pattern'', object_data = json_data, script_type = None\<rparr>)
       (find_json_objects L txt)"

text \<open>
  The body of the \<open>try\<close> block from \<open>raise_for_status\<close> on. \<open>Inr\<close> is a
  \<open>return results\<close> or the fall through with the no-JSON message; \<open>Inl\<close> is an
  exception leaving the block, with the dict as it was written so far.
\<close>

definition headers_get_content_type :: "response \<Rightarrow> string" where
  \<comment> \<open>\<open>response.headers.get('content-type', '')\<close>\<close>
  "headers_get_content_type resp = (case header_content_type resp of None \<Rightarrow> [] | Some c \<Rightarrow> c)"

definition process_response :: "pylib \<Rightarrow> results \<Rightarrow> response \<Rightarrow> exn \<times> results + results" where
  "process_response L results0 resp =
     (case raise_for_status resp of
        Inl e \<Rightarrow> Inl (e, results0)
      | Inr _ \<Rightarrow>
          let ctype = headers_get_content_type resp;
              results = results0\<lparr>content_type := Some ctype,
                                  size_kb := round_kb (content_length resp)\<rparr>;
              direct = (if contains ''application/json'' ctype
                        then (case response_json L resp of
                                Inr json_data \<Rightarrow>
                                  Some (Inr (results\<lparr>data := Some json_data,
                                     json_objects := [\<lparr>object_type = ''direct_json'',
                                        object_data = json_data, script_type = None\<rparr>],
                                     extraction_method := Some ''direct_json'',
                                     success := True\<rparr>))
                              | Inl e \<Rightarrow> if is_JSONDecodeError e then None
                                         else Some (Inl (e, results)))
                        else None)
          in case direct of
               Some outcome \<Rightarrow> outcome
             | None \<Rightarrow>
                 (case extract_json_from_script_tags L (response_text resp) of
                    Inl e \<Rightarrow> Inl (e, results)
                  | Inr objs \<Rightarrow>
                      if objs \<noteq> [] then
                        Inr (results\<lparr>json_objects := objs,
                               extraction_method := Some ''script_tags'', success := True\<rparr>)
                      else
                        (case extract_json_ld L (response_text resp) of
                           Inl e \<Rightarrow> Inl (e, results)
                         | Inr json_ld_objects \<Rightarrow>
                             if json_ld_objects \<noteq> [] then
                               Inr (results\<lparr>json_objects := json_ld_objects,
                                      extraction_method := Some ''json_ld'', success := True\<rparr>)
                             else
                               (let text_json_objects = extract_json_from_text L (response_text resp)
                                in if text_json_objects \<noteq> [] then
                                     Inr (results\<lparr>json_objects := text_json_objects,
                                            extraction_method := Some ''text_patterns'',
                                            success := True\<rparr>)
                                   else
                                     (case response_json L resp of
                                        Inr json_data \<Rightarrow>
                                          Inr (results\<lparr>data := Some json_data,
                                             json_objects := [\<lparr>object_type = ''forced_json'',
                                                object_data = json_data, script_type = None\<rparr>],
                                             extraction_method := Some ''forced_json'',
                                             success := True\<rparr>)
                                      | Inl e \<Rightarrow>
                                          Inr (results\<lparr>error :=
                                             Some ''No JSON data found in the provided URL''\<rparr>))))))"

definition fetched_url :: "string \<Rightarrow> string \<Rightarrow> string" where
  "fetched_url scheme u = (if scheme = [] then ''https://'' @ u else u)"

definition try_block :: "pylib \<Rightarrow> results \<Rightarrow> string \<Rightarrow> exn \<times> results + results" where
  "try_block L results u =
     (case urlparse_scheme L u of
        Inl e \<Rightarrow> Inl (e, results)
      | Inr scheme \<Rightarrow>
          (case session_get L (fetched_url scheme u) of
             Inl e \<Rightarrow> Inl (e, results)
           | Inr resp \<Rightarrow> process_response L results resp))"

text \<open>
  The two handlers are tried in the order of the source: \<open>RequestException\<close> first,
  any other \<open>Exception\<close> second. The \<open>url\<close> entry is written before the scheme is added
  and never again.
\<close>

definition extract_json_from_url :: "pylib \<Rightarrow> datetime \<Rightarrow> string \<Rightarrow> results" where
  "extract_json_from_url L now u =
     (let results = \<lparr>success = False, url = u, data = None, json_objects = [], error = None,
                      content_type = None, size_kb = 0, extraction_method = None,
                      timestamp = isoformat now\<rparr>
      in case try_block L results u of
           Inr r \<Rightarrow> r
         | Inl (e, r) \<Rightarrow>
             if is_RequestException e
             then r\<lparr>error := Some (''Failed to fetch the URL: '' @ message e)\<rparr>
             else r\<lparr>error := Some (''Extraction error: '' @ message e)\<rparr>)"

section \<open>The route \<open>/api/extract\<close>\<close>

text \<open>
  What \<open>api_extract_json\<close> reads of the request: the two headers and \<open>request.json\<close>.
  Reading \<open>request.json\<close> either gives the parsed body, any JSON value (\<open>None\<close> is
  \<open>JNull\<close>), or aborts the request with an HTTP error: 400 for a body that does not parse,
  415 for a request without JSON content type (Flask before 2.1 gives \<open>None\<close> there). The
  reply is what the client gets and the status code: the dict given to \<open>jsonify\<close>, the
  error page of an aborted request, or the reply 500 of Flask for an exception leaving the
  function. The clock is read once by \<open>validate_api_key\<close>, once by
  \<open>extract_json_from_url\<close> and twice by \<open>record_usage\<close>.
\<close>

record request =
  header_X_API_Key :: "string option"
  header_Authorization :: "string option"
  request_json :: "nat + json"

text \<open>
  \<open>ExtractionOfNonText v msg t\<close> is the result dict for a \<open>url\<close> entry \<open>v\<close> that is not a
  string: \<open>url\<close> is \<open>v\<close>, \<open>error\<close> is \<open>msg\<close>, \<open>timestamp\<close> is \<open>t\<close>, and every other
  entry is as initialised (no success, no data, no object, no method).
\<close>

datatype reply =
    Failure string
  | Extraction results
  | ExtractionOfNonText json string string
  | Aborted
  | InternalServerError

record clock =
  at_validate :: datetime
  at_extract :: datetime
  at_usage :: datetime
  at_last_used :: datetime

fun remove_bearer :: "string \<Rightarrow> string" where
  \<comment> \<open>\<open>s.replace('Bearer ', '')\<close>\<close>
  "remove_bearer [] = []"
| "remove_bearer (c # cs) =
     (if starts_with ''Bearer '' (c # cs) then remove_bearer (drop 6 cs)
      else c # remove_bearer cs)"

definition request_api_key :: "request \<Rightarrow> string" where
  "request_api_key req =
     (let bearer = remove_bearer (case header_Authorization req of None \<Rightarrow> [] | Some a \<Rightarrow> a)
      in case header_X_API_Key req of
           None \<Rightarrow> bearer
         | Some h \<Rightarrow> if h \<noteq> [] then h else bearer)"

text \<open>
  The truth value Python gives a parsed JSON value (\<open>if not data\<close>, \<open>if not url\<close>):
  \<open>None\<close>, \<open>False\<close>, zero, the empty string, the empty list and the empty dict are false. A
  float literal is zero when its digits are all zero or when it rounds to zero, that is
  when its value is at most 2 to the power -1075, half of the smallest positive float; \<open>NaN\<close> and the
  infinities are true.
\<close>

definition float_exponent :: "string \<Rightarrow> int" where
  "float_exponent s =
     (case s of
        [] \<Rightarrow> 0
      | c # r \<Rightarrow>
          if c = CHR ''e'' \<or> c = CHR ''E''
          then (case r of
                  [] \<Rightarrow> 0
                | d # r' \<Rightarrow>
                    if d = CHR ''-'' then - digits_value r'
                    else if d = CHR ''+'' then digits_value r'
                    else digits_value r)
          else 0)"

definition float_is_zero :: "string \<Rightarrow> bool" where
  "float_is_zero literal =
     (let body = snd (scan_sign literal);
          integer = takeWhile is_digit body;
          r1 = dropWhile is_digit body;
          frac = (case r1 of [] \<Rightarrow> [] | c # r \<Rightarrow> if c = CHR ''.'' then takeWhile is_digit r else []);
          r2 = (case r1 of [] \<Rightarrow> [] | c # r \<Rightarrow> if c = CHR ''.'' then dropWhile is_digit r else r1);
          m = digits_value (integer @ frac);
          e10 = float_exponent r2 - int (length frac)
      in integer \<noteq> [] \<and> (m = 0 \<or> (e10 < 0 \<and> m * 2 ^ 1075 \<le> 10 ^ nat (- e10))))"

fun truthy :: "json \<Rightarrow> bool" where
  "truthy JNull = False"
| "truthy (JBool b) = b"
| "truthy (JInt i) = (i \<noteq> 0)"
| "truthy (JFloat literal) = (\<not> float_is_zero literal)"
| "truthy (JString s) = (s \<noteq> [])"
| "truthy (JArray vs) = (vs \<noteq> [])"
| "truthy (JObject kvs) = (kvs \<noteq> [])"

fun type_name :: "json \<Rightarrow> string" where
  "type_name JNull = ''NoneType''"
| "type_name (JBool b) = ''bool''"
| "type_name (JInt i) = ''int''"
| "type_name (JFloat literal) = ''float''"
| "type_name (JString s) = ''str''"
| "type_name (JArray vs) = ''list''"
| "type_name (JObject kvs) = ''dict''"

definition attribute_error :: "json \<Rightarrow> string \<Rightarrow> exn" where
  \<comment> \<open>\<open>AttributeError: 'int' object has no attribute 'get'\<close>\<close>
  "attribute_error v name =
     Exn False False
       ([CHR 0x27] @ type_name v @ [CHR 0x27] @ '' object has no attribute '' @
        [CHR 0x27] @ name @ [CHR 0x27])"

definition data_get :: "json \<Rightarrow> string \<Rightarrow> exn + json" where
  \<comment> \<open>\<open>data.get(key)\<close>: only a dict has the method\<close>
  "data_get body key =
     (case body of
        JObject kvs \<Rightarrow> Inr (case map_of kvs key of None \<Rightarrow> JNull | Some v \<Rightarrow> v)
      | _ \<Rightarrow> Inl (attribute_error body ''get''))"

text \<open>
  \<open>extractor.extract_json_from_url(url)\<close> as the route calls it, with whatever true value
  the body holds under \<open>url\<close>. For a value that is not a string \<open>urlparse\<close> raises the
  \<open>AttributeError\<close> of its missing \<open>decode\<close> (CPython 3.11), which the second handler of
  \<open>extract_json_from_url\<close> turns into an extraction error; nothing is fetched.
\<close>

definition extract_json_from_url_value :: "pylib \<Rightarrow> datetime \<Rightarrow> json \<Rightarrow> reply" where
  "extract_json_from_url_value L now v =
     (case v of
        JString u \<Rightarrow> Extraction (extract_json_from_url L now u)
      | _ \<Rightarrow> ExtractionOfNonText v
               (''Extraction error: '' @ message (attribute_error v ''decode''))
               (isoformat now))"

definition api_extract_json ::
  "pylib \<Rightarrow> clock \<Rightarrow> request \<Rightarrow> APIKeyManager \<Rightarrow> (reply \<times> nat) \<times> APIKeyManager" where
  "api_extract_json L clk req key_manager =
     (let k = request_api_key req in
      if k = [] then ((Failure ''API key required'', 401), key_manager)
      else
        (case validate_api_key (at_validate clk) k key_manager of
           (Inl msg, km1) \<Rightarrow> ((Failure msg, 401), km1)
         | (Inr kd, km1) \<Rightarrow>
             (case request_json req of
                Inl status \<Rightarrow> ((Aborted, status), km1)
              | Inr body \<Rightarrow>
                  if \<not> truthy body then ((Failure ''JSON data required'', 400), km1)
                  else
                    (case data_get body ''url'' of
                       Inl e \<Rightarrow> ((InternalServerError, 500), km1)
                     | Inr u \<Rightarrow>
                         if \<not> truthy u then ((Failure ''URL parameter required'', 400), km1)
                         else
                           (let result = extract_json_from_url_value L (at_extract clk) u
                            in case record_usage (at_usage clk) (at_last_used clk) k km1 of
                                 (Inr _, km2) \<Rightarrow> ((result, 200), km2)
                               | (Inl e, km2) \<Rightarrow> ((InternalServerError, 500), km2))))))"

section \<open>The reference libraries and a small web\<close>

definition python :: "(string \<Rightarrow> exn + response) \<Rightarrow> pylib" where
  "python web =
     \<lparr>urlparse_scheme = py_urlparse_scheme,
      session_get = web,
      response_json = (\<lambda>r. case py_json_loads (response_text r) of
                              Inl e \<Rightarrow> Inl (Exn True True (message e))
                            | Inr v \<Rightarrow> Inr v),
      find_all_script = py_find_all_script,
      json_loads = py_json_loads,
      re_findall = py_findall\<rparr>"

text \<open>
  A web of three pages for the examples: an HTML page with a plain script and a JSON-LD
  block, a JSON document that carries a script element inside a string, and a plain
  text. Every other URL refuses the connection.
\<close>

definition page :: "string \<Rightarrow> string \<Rightarrow> string \<Rightarrow> response" where
  "page u ctype body =
     \<lparr>status_code = 200, reason = ''OK'', response_url = u,
      header_content_type = Some ctype, content_length = length body, response_text = body\<rparr>"

definition shop_page :: response where
  \<open>shop_page = page ''https://shop.example'' ''text/html''
     ''<p>Shop</p><script>var n = 1;</script><script type="application/ld+json">{"a":1}</script>''\<close>

definition item_page :: response where
  \<open>item_page = page ''https://api.example/item'' ''application/json''
     ''{"id":7,"html":"<script>[{}]</script>"}''\<close>

definition text_page :: response where
  \<open>text_page = page ''https://text.example'' ''text/plain'' ''{a:{b:1}}''\<close>

definition demo_web :: "string \<Rightarrow> exn + response" where
  "demo_web u =
     (if u = ''https://shop.example'' then Inr shop_page
      else if u = ''https://api.example/item'' then Inr item_page
      else if u = ''https://text.example'' then Inr text_page
      else Inl (Exn True False ''Connection refused''))"

section \<open>Ledger quantities and runs of the APIKeyManager\<close>

text \<open>
  \<open>ledger_count\<close> is the count of a key on a day as \<open>get_key_stats\<close> reads it (zero when
  the day or the key has no entry); \<open>ledger_total\<close> is the sum of a key's counts over all
  days of the ledger.
\<close>

definition ledger_count :: "(string, (string, int) dict) dict \<Rightarrow> string \<Rightarrow> string \<Rightarrow> int" where
  "ledger_count usage day k = dict_get (dict_get usage day []) k 0"

definition ledger_total :: "(string, (string, int) dict) dict \<Rightarrow> string \<Rightarrow> int" where
  "ledger_total usage k = (\<Sum>p\<leftarrow>usage. dict_get (snd p) k 0)"

text \<open>Consecutive calls of \<open>record_usage\<close> for one key, one pair of clock readings each.\<close>

fun record_usages :: "(datetime \<times> datetime) list \<Rightarrow> string \<Rightarrow> APIKeyManager \<Rightarrow> APIKeyManager" where
  "record_usages [] k self = self"
| "record_usages ((now, now2) # ts) k self = record_usages ts k (snd (record_usage now now2 k self))"

definition totals_match :: "APIKeyManager \<Rightarrow> bool" where
  "totals_match self =
     (\<forall>k kd. map_of (api_keys self) k = Some kd \<longrightarrow>
        total_requests kd = ledger_total (usage_data self) k)"

text \<open>
  One operation on the manager, with any arguments and any clock. \<open>generate_api_key\<close> draws
  32 characters from a CSPRNG and the record's key is unique: a created key is new, no usage
  is in the ledger under it. \<open>get_key_stats\<close> returns a value and changes nothing.
\<close>

inductive step :: "APIKeyManager \<Rightarrow> APIKeyManager \<Rightarrow> bool" where
  createKey: "ledger_total (usage_data self) generated = 0 \<Longrightarrow>
     step self (snd (create_api_key generated now email plan self))"
| validate: "step self (snd (validate_api_key now k self))"
| recordUsage: "step self (snd (record_usage now now2 k self))"
| getStats: "step self self"

inductive reachable :: "APIKeyManager \<Rightarrow> bool" where
  start: "reachable init_manager"
| next_op: "reachable self \<Longrightarrow> step self self' \<Longrightarrow> reachable self'"

text \<open>Concrete clock readings and managers for the examples.\<close>

definition day1 :: datetime where
  "day1 = \<lparr>strftime_Ymd = ''2024-05-01'', isoformat = ''2024-05-01T10:00:00''\<rparr>"

definition day2 :: datetime where
  "day2 = \<lparr>strftime_Ymd = ''2024-05-02'', isoformat = ''2024-05-02T09:30:00''\<rparr>"

definition one_key :: APIKeyManager where
  "one_key = snd (create_api_key ''api_k1'' day1 ''a@b.c'' ''free'' init_manager)"

definition used_once :: APIKeyManager where
  "used_once = snd (record_usage day2 day2 ''api_k1'' (snd (validate_api_key day2 ''api_k1'' one_key)))"


section \<open>The order of the strategies, as the specification words it\<close>

text \<open>
  The specification lists five strategies, tried in a fixed order up to the first that
  yields at least one object. \<open>strategy_yields\<close> gives each strategy of that list with the
  objects it yields on a response (none when it does not apply or fails);
  \<open>first_yield\<close> picks the first entry that is not empty.
\<close>

definition strategy_yields :: "pylib \<Rightarrow> response \<Rightarrow> (string \<times> json_object list) list" where
  "strategy_yields L resp =
     [(''direct_json'',
         if contains ''application/json'' (headers_get_content_type resp)
         then (case response_json L resp of
                 Inr v \<Rightarrow> [\<lparr>object_type = ''direct_json'', object_data = v, script_type = None\<rparr>]
               | Inl e \<Rightarrow> [])
         else []),
      (''script_tags'',
         case extract_json_from_script_tags L (response_text resp) of
           Inr objs \<Rightarrow> objs | Inl e \<Rightarrow> []),
      (''json_ld'',
         case extract_json_ld L (response_text resp) of Inr objs \<Rightarrow> objs | Inl e \<Rightarrow> []),
      (''text_patterns'', extract_json_from_text L (response_text resp)),
      (''forced_json'',
         case response_json L resp of
           Inr v \<Rightarrow> [\<lparr>object_type = ''forced_json'', object_data = v, script_type = None\<rparr>]
         | Inl e \<Rightarrow> [])]"

fun first_yield :: "(string \<times> json_object list) list \<Rightarrow> (string \<times> json_object list) option" where
  "first_yield [] = None"
| "first_yield ((m, objs) # rest) = (if objs \<noteq> [] then Some (m, objs) else first_yield rest)"



text \<open>A clock and requests with the key of \<open>one_key\<close> for the examples of the route.\<close>

definition demo_clock :: clock where
  "demo_clock = \<lparr>at_validate = day1, at_extract = day1, at_usage = day1, at_last_used = day1\<rparr>"

definition request_with_body :: "nat + json \<Rightarrow> request" where
  "request_with_body body =
     \<lparr>header_X_API_Key = Some ''api_k1'', header_Authorization = None, request_json = body\<rparr>"

definition request_with_url :: "string \<Rightarrow> request" where
  "request_with_url u = request_with_body (Inr (JObject [(''url'', JString u)]))"

section \<open>Properties of the APIKeyManager\<close>

lemma map_of_update_same: "map_of (AList.update k v al) k = Some v"
  by (simp add: update_conv')

text \<open>
  C9. For every plan name, \<open>create_api_key\<close> succeeds, stores the record it returns under
  the generated key, and the record's limits are those of the static table: free 100 a day
  and rate 10, premium 1000 and 100, enterprise 10000 and 1000; every other plan name gets
  the limits of free.
\<close>

theorem create_api_key_limits:
  "\<exists>kd self'.
     create_api_key generated now email plan self = (Inr (generated, kd), self') \<and>
     map_of (api_keys self') generated = Some kd \<and>
     (requests_per_day kd, rate_limit kd) =
       (if plan = ''free'' then (100, 10)
        else if plan = ''premium'' then (1000, 100)
        else if plan = ''enterprise'' then (10000, 1000)
        else (100, 10))"
  by (simp add: create_api_key_def limits_def dict_get_def Let_def map_of_update_same)

text \<open>
  C10. A plan name outside the table is stored as given in the record's \<open>plan_type\<close>,
  with the limits of free, and \<open>get_key_stats\<close> for the new key reports that name
  (which is not \<open>free\<close>).
\<close>

theorem unknown_plan_stored_verbatim:
  assumes "plan \<notin> {''free'', ''premium'', ''enterprise''}"
  shows "\<exists>kd self' st.
     create_api_key generated now email plan self = (Inr (generated, kd), self') \<and>
     plan_type kd = plan \<and> requests_per_day kd = 100 \<and> rate_limit kd = 10 \<and>
     get_key_stats now' generated self' = Some st \<and>
     stats_plan_type st = plan \<and> stats_plan_type st \<noteq> ''free'' \<and>
     stats_daily_limit st = 100"
  using assms
  by (simp add: create_api_key_def get_key_stats_def limits_def dict_get_def Let_def
      map_of_update_same)

theorem unknown_plan_stored_verbatim_witness:
  "\<exists>kd self' st.
     create_api_key ''api_k1'' \<lparr>strftime_Ymd = ''2024-05-01'', isoformat = ''2024-05-01T10:00:00''\<rparr>
       ''a@b.c'' ''gold'' init_manager = (Inr (''api_k1'', kd), self') \<and>
     plan_type kd = ''gold'' \<and> requests_per_day kd = 100 \<and> rate_limit kd = 10 \<and>
     get_key_stats \<lparr>strftime_Ymd = ''2024-05-02'', isoformat = ''2024-05-02T09:00:00''\<rparr>
       ''api_k1'' self' = Some st \<and>
     stats_plan_type st = ''gold'' \<and> stats_plan_type st \<noteq> ''free'' \<and>
     stats_daily_limit st = 100"
proof -
  have h: "''gold'' \<notin> {''free'', ''premium'', ''enterprise''}" by simp
  show ?thesis by (rule unknown_plan_stored_verbatim [OF h])
qed

lemma dict_get_update: "dict_get (AList.update k v d) k' dflt = (if k' = k then v else dict_get d k' dflt)"
  by (simp add: dict_get_def update_conv')

lemma ledger_count_update:
  "ledger_count (AList.update d (AList.update k c (dict_get u d [])) u) d' k' =
     (if d' = d \<and> k' = k then c else ledger_count u d' k')"
  by (simp add: ledger_count_def dict_get_update)

lemma sum_list_update:
  fixes f :: "'v \<Rightarrow> int"
  shows "(\<Sum>p\<leftarrow>AList.update d v u. f (snd p)) =
         (\<Sum>p\<leftarrow>u. f (snd p)) + f v - (case map_of u d of None \<Rightarrow> 0 | Some v0 \<Rightarrow> f v0)"
  by (induction u) auto

lemma ledger_total_update:
  "ledger_total (AList.update d (AList.update k c (dict_get u d [])) u) k' =
     ledger_total u k' + (if k' = k then c - ledger_count u d k else 0)"
proof -
  let ?f = "\<lambda>m. dict_get m k' (0::int)"
  let ?day = "dict_get u d []"
  have "ledger_total (AList.update d (AList.update k c ?day) u) k' =
        ledger_total u k' + ?f (AList.update k c ?day)
          - (case map_of u d of None \<Rightarrow> 0 | Some v0 \<Rightarrow> ?f v0)"
    unfolding ledger_total_def by (rule sum_list_update)
  moreover have "(case map_of u d of None \<Rightarrow> 0 | Some v0 \<Rightarrow> ?f v0) = ledger_count u d k'"
    by (simp add: ledger_count_def dict_get_def split: option.splits)
  ultimately show ?thesis
    by (simp add: dict_get_update ledger_count_def)
qed

lemma usage_after_validate:
  "usage_data (snd (validate_api_key now k self)) = usage_data self \<or>
   usage_data (snd (validate_api_key now k self)) =
     AList.update (strftime_Ymd now)
       (AList.update k (ledger_count (usage_data self) (strftime_Ymd now) k)
          (dict_get (usage_data self) (strftime_Ymd now) [])) (usage_data self)"
  by (simp add: validate_api_key_def Let_def ledger_count_def dict_get_def split: option.splits)

lemma keys_after_validate: "api_keys (snd (validate_api_key now k self)) = api_keys self"
  by (simp add: validate_api_key_def Let_def split: option.splits)

lemma usage_after_record:
  "usage_data (snd (record_usage now now2 k self)) =
     AList.update (strftime_Ymd now)
       (AList.update k (ledger_count (usage_data self) (strftime_Ymd now) k + 1)
          (dict_get (usage_data self) (strftime_Ymd now) [])) (usage_data self)"
  by (simp add: record_usage_def Let_def ledger_count_def dict_get_def split: option.splits)

lemma keys_after_record:
  "api_keys (snd (record_usage now now2 k self)) =
     (case map_of (api_keys self) k of
        None \<Rightarrow> api_keys self
      | Some kd \<Rightarrow> AList.update k (kd\<lparr>total_requests := total_requests kd + 1,
                       last_used := Some (isoformat now2)\<rparr>) (api_keys self))"
  by (simp add: record_usage_def Let_def split: option.splits)

lemma totals_match_validate: "totals_match self \<Longrightarrow> totals_match (snd (validate_api_key now k self))"
  using usage_after_validate [of now k self]
  by (auto simp: totals_match_def keys_after_validate ledger_total_update)

lemma totals_match_record: "totals_match self \<Longrightarrow> totals_match (snd (record_usage now now2 k self))"
  by (auto simp: totals_match_def keys_after_record usage_after_record ledger_total_update
      update_conv' split: option.splits if_splits)

lemma totals_match_create:
  "totals_match self \<Longrightarrow> ledger_total (usage_data self) generated = 0 \<Longrightarrow>
   totals_match (snd (create_api_key generated now email plan self))"
  by (auto simp: totals_match_def create_api_key_def limits_def Let_def update_conv'
      split: if_splits)

lemma totals_match_step: "step self self' \<Longrightarrow> totals_match self \<Longrightarrow> totals_match self'"
  by (induction rule: step.induct)
     (simp_all add: totals_match_validate totals_match_record totals_match_create)

lemma totals_match_init: "totals_match init_manager"
  by (simp add: totals_match_def init_manager_def)

lemma reachable_totals_match: "reachable self \<Longrightarrow> totals_match self"
  by (induction rule: reachable.induct) (auto intro: totals_match_init totals_match_step)

lemma validate_api_key_result:
  "fst (validate_api_key now k self) =
     (case map_of (api_keys self) k of
        None \<Rightarrow> Inl ''Invalid API key''
      | Some kd \<Rightarrow>
          if \<not> is_active kd then Inl ''API key is inactive''
          else if requests_per_day kd \<le> ledger_count (usage_data self) (strftime_Ymd now) k
          then Inl ''Daily request limit exceeded''
          else Inr kd)"
  by (simp add: validate_api_key_def Let_def ledger_count_def dict_get_def split: option.splits)

lemma record_usages_count:
  "\<forall>t\<in>set ts. strftime_Ymd (fst t) = d \<Longrightarrow>
   ledger_count (usage_data (record_usages ts k self)) d' k =
     (if d' = d then ledger_count (usage_data self) d k + int (length ts)
      else ledger_count (usage_data self) d' k)"
proof (induction ts arbitrary: self)
  case Nil
  then show ?case by simp
next
  case (Cons t ts)
  obtain now now2 where t: "t = (now, now2)" by (cases t)
  from Cons.prems have d: "strftime_Ymd now = d" and rest: "\<forall>t\<in>set ts. strftime_Ymd (fst t) = d"
    by (simp_all add: t)
  show ?case
    by (simp add: t Cons.IH [OF rest] usage_after_record ledger_count_update d)
qed

lemma record_usages_record:
  "map_of (api_keys self) k = Some kd \<Longrightarrow>
   map_of (api_keys (record_usages ts k self)) k =
     Some (kd\<lparr>total_requests := total_requests kd + int (length ts),
              last_used := (if ts = [] then last_used kd else Some (isoformat (snd (last ts))))\<rparr>)"
proof (induction ts arbitrary: self kd)
  case Nil
  then show ?case by simp
next
  case (Cons t ts)
  obtain now now2 where t: "t = (now, now2)" by (cases t)
  let ?kd1 = "kd\<lparr>total_requests := total_requests kd + 1, last_used := Some (isoformat now2)\<rparr>"
  have "map_of (api_keys (snd (record_usage now now2 k self))) k = Some ?kd1"
    using Cons.prems by (simp add: keys_after_record map_of_update_same)
  from Cons.IH [OF this] show ?case
    by (simp add: t)
qed

text \<open>
  C7. \<open>validate_api_key\<close> answers with the first reason that applies, in this order: no
  record for the key, \<open>Invalid API key\<close>; record not active, \<open>API key is inactive\<close>;
  today's count at or above \<open>requests_per_day\<close>, \<open>Daily request limit exceeded\<close>;
  otherwise success with the record. Hence, for an active key with a record, after at least
  \<open>requests_per_day\<close> calls of \<open>record_usage\<close> on day \<open>d\<close> (the day's count starting
  from zero or more) a validation on day \<open>d\<close> fails with the limit message, and a validation
  on another day whose ledger entry for the key is fresh succeeds, the limit being positive.
\<close>

theorem validate_api_key_checks:
  "fst (validate_api_key now k self) =
     (case map_of (api_keys self) k of
        None \<Rightarrow> Inl ''Invalid API key''
      | Some kd \<Rightarrow>
          if \<not> is_active kd then Inl ''API key is inactive''
          else if requests_per_day kd \<le> ledger_count (usage_data self) (strftime_Ymd now) k
          then Inl ''Daily request limit exceeded''
          else Inr kd) \<and>
   (map_of (api_keys self) k = Some kd0 \<and> is_active kd0 \<and>
    0 \<le> ledger_count (usage_data self) d k \<and>
    (\<forall>t\<in>set ts. strftime_Ymd (fst t) = d) \<and> requests_per_day kd0 \<le> int (length ts) \<longrightarrow>
      (strftime_Ymd now = d \<longrightarrow>
         fst (validate_api_key now k (record_usages ts k self)) =
           Inl ''Daily request limit exceeded'') \<and>
      (strftime_Ymd now \<noteq> d \<and> ledger_count (usage_data self) (strftime_Ymd now) k = 0 \<and>
       0 < requests_per_day kd0 \<longrightarrow>
         (\<exists>kd'. fst (validate_api_key now k (record_usages ts k self)) = Inr kd' \<and>
                api_key kd' = api_key kd0 \<and>
                total_requests kd' = total_requests kd0 + int (length ts))))"
proof (intro conjI impI)
  show "fst (validate_api_key now k self) =
     (case map_of (api_keys self) k of
        None \<Rightarrow> Inl ''Invalid API key''
      | Some kd \<Rightarrow>
          if \<not> is_active kd then Inl ''API key is inactive''
          else if requests_per_day kd \<le> ledger_count (usage_data self) (strftime_Ymd now) k
          then Inl ''Daily request limit exceeded''
          else Inr kd)"
    by (rule validate_api_key_result)
next
  assume h: "map_of (api_keys self) k = Some kd0 \<and> is_active kd0 \<and>
    0 \<le> ledger_count (usage_data self) d k \<and>
    (\<forall>t\<in>set ts. strftime_Ymd (fst t) = d) \<and> requests_per_day kd0 \<le> int (length ts)"
    and today: "strftime_Ymd now = d"
  from h have days: "\<forall>t\<in>set ts. strftime_Ymd (fst t) = d" by simp
  from h show "fst (validate_api_key now k (record_usages ts k self)) =
           Inl ''Daily request limit exceeded''"
    by (simp add: validate_api_key_result record_usages_record record_usages_count [OF days] today)
next
  assume h: "map_of (api_keys self) k = Some kd0 \<and> is_active kd0 \<and>
    0 \<le> ledger_count (usage_data self) d k \<and>
    (\<forall>t\<in>set ts. strftime_Ymd (fst t) = d) \<and> requests_per_day kd0 \<le> int (length ts)"
    and other: "strftime_Ymd now \<noteq> d \<and> ledger_count (usage_data self) (strftime_Ymd now) k = 0 \<and>
       0 < requests_per_day kd0"
  from h have days: "\<forall>t\<in>set ts. strftime_Ymd (fst t) = d" by simp
  from h other show "\<exists>kd'. fst (validate_api_key now k (record_usages ts k self)) = Inr kd' \<and>
                api_key kd' = api_key kd0 \<and>
                total_requests kd' = total_requests kd0 + int (length ts)"
    by (simp add: validate_api_key_result record_usages_record record_usages_count [OF days])
qed

lemma one_key_record:
  "map_of (api_keys one_key) ''api_k1'' =
     Some \<lparr>user_email = ''a@b.c'', api_key = ''api_k1'', plan_type = ''free'',
           requests_per_day = 100, rate_limit = 10, created_at = ''2024-05-01T10:00:00'',
           is_active = True, total_requests = 0, last_used = None\<rparr>"
  by (simp add: one_key_def create_api_key_def limits_def dict_get_def Let_def init_manager_def day1_def)

lemma one_key_usage: "usage_data one_key = []"
  by (simp add: one_key_def create_api_key_def limits_def dict_get_def Let_def init_manager_def)

theorem validate_api_key_checks_witness:
  "fst (validate_api_key day1 ''api_k1'' (record_usages (replicate 100 (day1, day1)) ''api_k1'' one_key)) =
     Inl ''Daily request limit exceeded'' \<and>
   (\<exists>kd'. fst (validate_api_key day2 ''api_k1''
                  (record_usages (replicate 100 (day1, day1)) ''api_k1'' one_key)) = Inr kd' \<and>
          total_requests kd' = 100) \<and>
   fst (validate_api_key day1 ''nokey'' one_key) = Inl ''Invalid API key''"
proof -
  let ?kd = "\<lparr>user_email = ''a@b.c'', api_key = ''api_k1'', plan_type = ''free'',
           requests_per_day = 100, rate_limit = 10, created_at = ''2024-05-01T10:00:00'',
           is_active = True, total_requests = 0, last_used = None\<rparr>"
  let ?ts = "replicate 100 (day1, day1)"
  have hyp: "map_of (api_keys one_key) ''api_k1'' = Some ?kd \<and> is_active ?kd \<and>
    0 \<le> ledger_count (usage_data one_key) ''2024-05-01'' ''api_k1'' \<and>
    (\<forall>t\<in>set ?ts. strftime_Ymd (fst t) = ''2024-05-01'') \<and> requests_per_day ?kd \<le> int (length ?ts)"
    by (simp add: one_key_record one_key_usage ledger_count_def dict_get_def day1_def)
  have d1: "strftime_Ymd day1 = ''2024-05-01''" by (simp add: day1_def)
  have d2: "strftime_Ymd day2 \<noteq> ''2024-05-01'' \<and>
            ledger_count (usage_data one_key) (strftime_Ymd day2) ''api_k1'' = 0 \<and>
            0 < requests_per_day ?kd"
    by (simp add: day2_def one_key_usage ledger_count_def dict_get_def)
  have a: "fst (validate_api_key day1 ''api_k1'' (record_usages ?ts ''api_k1'' one_key)) =
     Inl ''Daily request limit exceeded''"
    using validate_api_key_checks [of day1 "''api_k1''" one_key ?kd "''2024-05-01''" ?ts] hyp d1
    by blast
  have b: "\<exists>kd'. fst (validate_api_key day2 ''api_k1'' (record_usages ?ts ''api_k1'' one_key)) = Inr kd' \<and>
          total_requests kd' = 100"
    using validate_api_key_checks [of day2 "''api_k1''" one_key ?kd "''2024-05-01''" ?ts] hyp d2
    by auto
  have c: "fst (validate_api_key day1 ''nokey'' one_key) = Inl ''Invalid API key''"
    using validate_api_key_checks [of day1 "''nokey''" one_key]
    by (simp add: one_key_def create_api_key_def limits_def dict_get_def Let_def init_manager_def)
  from a b c show ?thesis by blast
qed

text \<open>
  C8. In every manager reached from the empty store by \<open>create_api_key\<close>,
  \<open>validate_api_key\<close>, \<open>record_usage\<close> and \<open>get_key_stats\<close>, with any arguments and
  each created key new (relation \<open>step\<close>), each record's \<open>total_requests\<close> is the sum
  over all days of the key's ledger entries, and every further operation keeps it so.
\<close>

theorem total_requests_matches_ledger:
  assumes "reachable self"
  shows "(\<forall>k kd. map_of (api_keys self) k = Some kd \<longrightarrow>
            total_requests kd = ledger_total (usage_data self) k) \<and>
         (\<forall>self'. step self self' \<longrightarrow>
            (\<forall>k kd. map_of (api_keys self') k = Some kd \<longrightarrow>
               total_requests kd = ledger_total (usage_data self') k))"
  using reachable_totals_match [OF assms] totals_match_step [of self]
  unfolding totals_match_def by blast

lemma reachable_used_once: "reachable used_once"
proof -
  have "ledger_total (usage_data init_manager) ''api_k1'' = 0"
    by (simp add: ledger_total_def init_manager_def)
  then have "step init_manager one_key"
    unfolding one_key_def by (rule step.createKey)
  with reachable.start have "reachable one_key" by (rule reachable.next_op)
  then have "reachable (snd (validate_api_key day2 ''api_k1'' one_key))"
    using step.validate by (rule reachable.next_op)
  then show ?thesis
    unfolding used_once_def using step.recordUsage by (rule reachable.next_op)
qed

theorem total_requests_matches_ledger_witness:
  "reachable used_once \<and>
   (\<exists>kd. map_of (api_keys used_once) ''api_k1'' = Some kd \<and> total_requests kd = 1 \<and>
      total_requests kd = ledger_total (usage_data used_once) ''api_k1'')"
proof -
  have kd: "\<exists>kd. map_of (api_keys used_once) ''api_k1'' = Some kd \<and> total_requests kd = 1"
    by (simp add: used_once_def keys_after_record keys_after_validate one_key_record
        map_of_update_same)
  with total_requests_matches_ledger [OF reachable_used_once] reachable_used_once
  show ?thesis by blast
qed

section \<open>Properties of the extractor\<close>

lemma process_response_raises:
  assumes "process_response L r0 resp = Inl (e, r)"
  shows "success r = success r0 \<and> error r = error r0 \<and> json_objects r = json_objects r0 \<and>
         data r = data r0 \<and> extraction_method r = extraction_method r0 \<and>
         url r = url r0 \<and> timestamp r = timestamp r0"
  using assms
  by (auto simp: process_response_def Let_def split: sum.splits option.splits if_splits)

lemma process_response_returns:
  assumes "process_response L r0 resp = Inr r"
    and "\<not> success r0" "error r0 = None" "json_objects r0 = []" "data r0 = None"
    and "extraction_method r0 = None"
  shows "url r = url r0 \<and> timestamp r = timestamp r0 \<and>
         ((success r \<and> error r = None \<and> json_objects r \<noteq> [] \<and>
           (\<exists>m \<in> set [''direct_json'', ''script_tags'', ''json_ld'', ''text_patterns'',
                         ''forced_json'']. extraction_method r = Some m)) \<or>
          (\<not> success r \<and> error r = Some ''No JSON data found in the provided URL'' \<and>
           json_objects r = [] \<and> data r = None \<and> extraction_method r = None))"
  using assms
  by (auto simp: process_response_def Let_def split: sum.splits option.splits if_splits)

text \<open>The reference models on the texts of the examples.\<close>

lemmas json_eval = py_json_loads_def skip_ws_def json_ws_def py_scanstring_def scan_constant_def
  scan_number_def scan_sign_def scan_frac_def scan_exp_def scan_exp_sign_def starts_with_def
  is_digit_def digits_value_def simple_escape_def

lemmas html_eval = py_find_all_script_def html_step_def text_step_def plain_ampersand_def html_eof_def
  is_alpha_def is_space_def is_html_space_def is_quote_def is_digit_def
  lower_def add_attr_def end_of_start_tag_def script_element_def closes_def comment_close_def
  starts_with_def

lemma item_json:
  \<open>py_json_loads ''{"id":7,"html":"<script>[{}]</script>"}'' =
     Inr (JObject [(''id'', JInt 7), (''html'', JString ''<script>[{}]</script>'')])\<close>
  by (simp add: json_eval)

lemma item_scripts:
  \<open>py_find_all_script ''{"id":7,"html":"<script>[{}]</script>"}'' =
     Inr [\<lparr>tag_type = None, tag_string = Some ''[{}]''\<rparr>]\<close>
  by (simp add: html_eval)

lemma shop_scripts:
  \<open>py_find_all_script
     ''<p>Shop</p><script>var n = 1;</script><script type="application/ld+json">{"a":1}</script>'' =
     Inr [\<lparr>tag_type = None, tag_string = Some ''var n = 1;''\<rparr>,
          \<lparr>tag_type = Some ''application/ld+json'', tag_string = Some ''{"a":1}''\<rparr>]\<close>
  by (simp add: html_eval)

lemma plain_script_matches:
  "map (\<lambda>p. py_findall p ''var n = 1;'') patterns = [[], [], []]"
  by (simp add: patterns_def)

lemma text_scripts: \<open>py_find_all_script ''{a:{b:1}}'' = Inr []\<close>
  by (simp add: html_eval)

lemma a1_json: \<open>py_json_loads ''{"a":1}'' = Inr (JObject [(''a'', JInt 1)])\<close>
  by (simp add: json_eval)

lemma a1_matches:
  \<open>map (\<lambda>p. py_findall p ''{"a":1}'') patterns = [[], [''{"a":1}''], []]\<close>
  by (simp add: patterns_def)

lemma ab_matches:
  \<open>map (\<lambda>p. py_findall p ''{a:{b:1}}'') patterns = [[''{a:{b:1}}''], [], []]\<close>
  by (simp add: patterns_def)

lemma ab_json: \<open>py_json_loads ''{a:{b:1}}'' = Inl (Exn False True ''Expecting value'')\<close>
  by (simp add: json_eval)

lemmas page_eval = python_def demo_web_def fetched_url_def raise_for_status_def page_def
  shop_page_def item_page_def text_page_def headers_get_content_type_def

lemma item_url_scheme: "py_urlparse_scheme ''https://api.example/item'' = Inr ''https''"
  by (simp add: py_urlparse_scheme_def urlsplit_scheme_def Let_def is_alpha_def scheme_char_def is_digit_def
      starts_with_def lower_def)

lemma shop_url_scheme: "py_urlparse_scheme ''https://shop.example'' = Inr ''https''"
  by (simp add: py_urlparse_scheme_def urlsplit_scheme_def Let_def is_alpha_def scheme_char_def is_digit_def
      starts_with_def lower_def)

lemma text_url_scheme: "py_urlparse_scheme ''https://text.example'' = Inr ''https''"
  by (simp add: py_urlparse_scheme_def urlsplit_scheme_def Let_def is_alpha_def scheme_char_def is_digit_def
      starts_with_def lower_def)

lemma bare_url_scheme: "py_urlparse_scheme ''shop.example'' = Inr []"
  by (simp add: py_urlparse_scheme_def urlsplit_scheme_def Let_def is_alpha_def scheme_char_def is_digit_def
      starts_with_def lower_def)

lemma contains_json_type: "contains ''application/json'' ''application/json''"
  and not_contains_html: "\<not> contains ''application/json'' ''text/html''"
  and not_contains_plain: "\<not> contains ''application/json'' ''text/plain''"
  by (simp_all add: starts_with_def)

lemma try_block_raises:
  assumes "try_block L r0 u = Inl (e, r)"
  shows "success r = success r0 \<and> error r = error r0 \<and> json_objects r = json_objects r0 \<and>
         data r = data r0 \<and> extraction_method r = extraction_method r0 \<and>
         url r = url r0 \<and> timestamp r = timestamp r0"
proof (cases "urlparse_scheme L u")
  case (Inl e1)
  with assms show ?thesis by (auto simp: try_block_def)
next
  case (Inr scheme)
  show ?thesis
  proof (cases "session_get L (fetched_url scheme u)")
    case (Inl e2)
    with assms Inr show ?thesis by (auto simp: try_block_def)
  next
    case resp: (Inr resp)
    with assms Inr have "process_response L r0 resp = Inl (e, r)"
      by (simp add: try_block_def)
    then show ?thesis by (rule process_response_raises)
  qed
qed

lemma try_block_returns:
  assumes "try_block L r0 u = Inr r"
    and "\<not> success r0" "error r0 = None" "json_objects r0 = []" "data r0 = None"
    and "extraction_method r0 = None"
  shows "url r = url r0 \<and> timestamp r = timestamp r0 \<and>
         ((success r \<and> error r = None \<and> json_objects r \<noteq> [] \<and>
           (\<exists>m \<in> set [''direct_json'', ''script_tags'', ''json_ld'', ''text_patterns'',
                         ''forced_json'']. extraction_method r = Some m)) \<or>
          (\<not> success r \<and> error r = Some ''No JSON data found in the provided URL'' \<and>
           json_objects r = [] \<and> data r = None \<and> extraction_method r = None))"
proof -
  from assms(1) obtain resp where "process_response L r0 resp = Inr r"
    by (auto simp: try_block_def split: sum.splits)
  then show ?thesis using assms(2-) by (rule process_response_returns)
qed

lemma extract_url_field: "url (extract_json_from_url L now u) = u"
proof -
  let ?r0 = "\<lparr>success = False, url = u, data = None, json_objects = [], error = None,
              content_type = None, size_kb = 0, extraction_method = None,
              timestamp = isoformat now\<rparr>"
  show ?thesis
  proof (cases "try_block L ?r0 u")
    case (Inl p)
    obtain e r where p: "p = (e, r)" by (cases p)
    from try_block_raises [of L ?r0 u e r] Inl p show ?thesis
      by (simp add: extract_json_from_url_def Let_def)
  next
    case (Inr r)
    from try_block_returns [OF Inr] Inr show ?thesis
      by (simp add: extract_json_from_url_def Let_def)
  qed
qed


text \<open>
  C2. For a response that was fetched without error, whose content type contains
  \<open>application/json\<close> and whose body \<open>response.json()\<close> parses, the result is the
  direct-JSON one: method \<open>direct_json\<close> and a single object of type \<open>direct_json\<close>
  holding the parsed body, whatever script elements the body holds. In general the method
  and the objects of the result are those of the first of the five strategies, in the order
  direct JSON, script tags, JSON-LD, text patterns, forced JSON, that yields an object.
\<close>

theorem direct_json_has_priority:
  assumes "urlparse_scheme L u = Inr scheme"
    and "session_get L (fetched_url scheme u) = Inr resp"
    and "raise_for_status resp = Inr ()"
  shows "(contains ''application/json'' (headers_get_content_type resp) \<and>
          response_json L resp = Inr v \<longrightarrow>
            extract_json_from_url L now u =
              \<lparr>success = True, url = u, data = Some v,
               json_objects = [\<lparr>object_type = ''direct_json'', object_data = v,
                                 script_type = None\<rparr>],
               error = None, content_type = Some (headers_get_content_type resp),
               size_kb = round_kb (content_length resp),
               extraction_method = Some ''direct_json'', timestamp = isoformat now\<rparr>) \<and>
         (find_all_script L (response_text resp) = Inr scripts \<and>
          (\<forall>e. response_json L resp = Inl e \<longrightarrow> is_JSONDecodeError e) \<longrightarrow>
            (let r = extract_json_from_url L now u
             in (success r, extraction_method r, json_objects r) =
                  (case first_yield (strategy_yields L resp) of
                     None \<Rightarrow> (False, None, [])
                   | Some (m, objs) \<Rightarrow> (True, Some m, objs))))"
proof (intro conjI impI)
  assume "contains ''application/json'' (headers_get_content_type resp) \<and>
          response_json L resp = Inr v"
  with assms show "extract_json_from_url L now u =
              \<lparr>success = True, url = u, data = Some v,
               json_objects = [\<lparr>object_type = ''direct_json'', object_data = v,
                                 script_type = None\<rparr>],
               error = None, content_type = Some (headers_get_content_type resp),
               size_kb = round_kb (content_length resp),
               extraction_method = Some ''direct_json'', timestamp = isoformat now\<rparr>"
    by (simp add: extract_json_from_url_def try_block_def process_response_def Let_def)
next
  assume h: "find_all_script L (response_text resp) = Inr scripts \<and>
          (\<forall>e. response_json L resp = Inl e \<longrightarrow> is_JSONDecodeError e)"
  let ?txt = "response_text resp"
  have st: "extract_json_from_script_tags L ?txt = Inr (script_tags_loop L scripts)"
    using h by (simp add: extract_json_from_script_tags_def)
  have ld: "extract_json_ld L ?txt = Inr (json_ld_loop L
                 (filter (\<lambda>script. tag_type script = Some ''application/ld+json'') scripts))"
    using h by (simp add: extract_json_ld_def)
  show "let r = extract_json_from_url L now u
        in (success r, extraction_method r, json_objects r) =
             (case first_yield (strategy_yields L resp) of
                None \<Rightarrow> (False, None, [])
              | Some (m, objs) \<Rightarrow> (True, Some m, objs))"
  proof (cases "response_json L resp")
    case (Inr v)
    with assms st ld show ?thesis
      by (simp add: extract_json_from_url_def try_block_def process_response_def Let_def
          strategy_yields_def)
  next
    case (Inl e)
    with h have "is_JSONDecodeError e" by simp
    with Inl assms st ld show ?thesis
      by (simp add: extract_json_from_url_def try_block_def process_response_def Let_def
          strategy_yields_def)
  qed
qed

theorem direct_json_has_priority_witness:
  \<open>extract_json_from_url (python demo_web) day1 ''https://api.example/item'' =
     \<lparr>success = True, url = ''https://api.example/item'',
      data = Some (JObject [(''id'', JInt 7), (''html'', JString ''<script>[{}]</script>'')]),
      json_objects =
        [\<lparr>object_type = ''direct_json'',
          object_data = JObject [(''id'', JInt 7), (''html'', JString ''<script>[{}]</script>'')],
          script_type = None\<rparr>],
      error = None, content_type = Some ''application/json'', size_kb = 4,
      extraction_method = Some ''direct_json'', timestamp = ''2024-05-01T10:00:00''\<rparr> \<and>
   map_of (strategy_yields (python demo_web) item_page) ''script_tags'' =
     Some [\<lparr>object_type = ''script_tag'', object_data = JArray [JObject []],
            script_type = Some ''unknown''\<rparr>] \<and>
   first_yield (strategy_yields (python demo_web) item_page) =
     Some (''direct_json'',
       [\<lparr>object_type = ''direct_json'',
         object_data = JObject [(''id'', JInt 7), (''html'', JString ''<script>[{}]</script>'')],
         script_type = None\<rparr>])\<close>
proof -
  let ?L = "python demo_web" and ?u = "''https://api.example/item''"
  let ?v = "JObject [(''id'', JInt 7), (''html'', JString ''<script>[{}]</script>'')]"
  have 1: "urlparse_scheme ?L ?u = Inr ''https''"
    by (simp add: python_def item_url_scheme)
  have 2: "session_get ?L (fetched_url ''https'' ?u) = Inr item_page"
    by (simp add: python_def demo_web_def fetched_url_def)
  have 3: "raise_for_status item_page = Inr ()"
    by (simp add: page_eval)
  have 4: "contains ''application/json'' (headers_get_content_type item_page) \<and>
           response_json ?L item_page = Inr ?v"
    by (simp add: page_eval item_json starts_with_def)
  have a: "extract_json_from_url ?L day1 ?u =
     \<lparr>success = True, url = ?u, data = Some ?v,
      json_objects = [\<lparr>object_type = ''direct_json'', object_data = ?v, script_type = None\<rparr>],
      error = None, content_type = Some ''application/json'', size_kb = 4,
      extraction_method = Some ''direct_json'', timestamp = ''2024-05-01T10:00:00''\<rparr>"
    using direct_json_has_priority [OF 1 2 3, where v = ?v and now = day1] 4
    by (simp add: page_eval round_kb_def day1_def)
  have m: \<open>map (\<lambda>p. py_findall p ''[{}]'') patterns = [[], [], [''[{}]'']]\<close>
    by (simp add: patterns_def)
  have j: \<open>py_json_loads ''[{}]'' = Inr (JArray [JObject []])\<close>
    by (simp add: json_eval)
  have b: "map_of (strategy_yields ?L item_page) ''script_tags'' =
     Some [\<lparr>object_type = ''script_tag'', object_data = JArray [JObject []],
            script_type = Some ''unknown''\<rparr>]"
    using m j
    by (simp add: strategy_yields_def extract_json_from_script_tags_def python_def item_page_def
        page_def item_scripts find_json_objects_def patterns_def)
  have 5: "find_all_script ?L (response_text item_page) =
             Inr [\<lparr>tag_type = None, tag_string = Some ''[{}]''\<rparr>] \<and>
           (\<forall>e. response_json ?L item_page = Inl e \<longrightarrow> is_JSONDecodeError e)"
    using 4 item_scripts by (simp add: python_def item_page_def page_def)
  from direct_json_has_priority [OF 1 2 3, where now = day1 and v = ?v
      and scripts = "[\<lparr>tag_type = None, tag_string = Some ''[{}]''\<rparr>]"] 5
  have "(let r = extract_json_from_url ?L day1 ?u
         in (success r, extraction_method r, json_objects r) =
              (case first_yield (strategy_yields ?L item_page) of
                 None \<Rightarrow> (False, None, [])
               | Some (m, objs) \<Rightarrow> (True, Some m, objs)))"
    by blast
  then have c: "first_yield (strategy_yields ?L item_page) =
     Some (''direct_json'',
       [\<lparr>object_type = ''direct_json'', object_data = ?v, script_type = None\<rparr>])"
    unfolding a by (auto simp: Let_def split: option.splits)
  from a b c show ?thesis by simp
qed

lemma nowhere_url_scheme: "py_urlparse_scheme ''nowhere.example'' = Inr []"
  by (simp add: py_urlparse_scheme_def urlsplit_scheme_def Let_def is_alpha_def scheme_char_def is_digit_def
      starts_with_def lower_def)

lemma nowhere_extraction:
  "extract_json_from_url (python demo_web) day1 ''nowhere.example'' =
     \<lparr>success = False, url = ''nowhere.example'', data = None, json_objects = [],
      error = Some ''Failed to fetch the URL: Connection refused'', content_type = None,
      size_kb = 0, extraction_method = None, timestamp = ''2024-05-01T10:00:00''\<rparr>"
  by (simp add: extract_json_from_url_def try_block_def python_def nowhere_url_scheme
      fetched_url_def demo_web_def day1_def)



lemma fold_append_concat:
  "fold (\<lambda>x acc. acc @ f x) xs init = init @ concat (map f xs)"
  by (induction xs arbitrary: init) simp_all

lemma find_json_objects_concat:
  "find_json_objects L txt = concat (map (\<lambda>p. re_findall L p txt) patterns)"
  by (simp add: find_json_objects_def fold_append_concat)

lemma parse_matches_concat:
  "parse_matches L mk ms =
     concat (map (\<lambda>c. case json_loads L c of Inr v \<Rightarrow> [mk v] | Inl e \<Rightarrow> []) ms)"
  by (induction ms) (simp_all split: sum.splits)

lemma ab_candidates: "find_json_objects (python web) ''{a:{b:1}}'' = [''{a:{b:1}}'']"
  using ab_matches by (simp add: find_json_objects_concat python_def)

lemma a1_candidates: \<open>find_json_objects (python web) ''{"a":1}'' = [''{"a":1}'']\<close>
  using a1_matches by (simp add: find_json_objects_concat python_def)

lemma twice_matches:
  \<open>map (\<lambda>p. py_findall p ''{"a":1}{"a":1}'') patterns = [[], [''{"a":1}'', ''{"a":1}''], []]\<close>
  by (simp add: patterns_def)

lemma text_extraction:
  "extract_json_from_url (python demo_web) day1 ''https://text.example'' =
     \<lparr>success = False, url = ''https://text.example'', data = None, json_objects = [],
      error = Some ''No JSON data found in the provided URL'', content_type = Some ''text/plain'',
      size_kb = 1, extraction_method = None, timestamp = ''2024-05-01T10:00:00''\<rparr>"
proof -
  have t: "response_text text_page = ''{a:{b:1}}''"
    by (simp add: text_page_def page_def)
  have s: "extract_json_from_script_tags (python demo_web) ''{a:{b:1}}'' = Inr []"
    by (simp add: extract_json_from_script_tags_def python_def text_scripts)
  have l: "extract_json_ld (python demo_web) ''{a:{b:1}}'' = Inr []"
    by (simp add: extract_json_ld_def python_def text_scripts)
  have x: "extract_json_from_text (python demo_web) ''{a:{b:1}}'' = []"
    by (simp add: extract_json_from_text_def ab_candidates) (simp add: python_def ab_json)
  have j: "response_json (python demo_web) text_page = Inl (Exn True True ''Expecting value'')"
    by (simp add: python_def t ab_json)
  have g: "session_get (python demo_web) (fetched_url ''https'' ''https://text.example'') = Inr text_page"
    by (simp add: python_def demo_web_def fetched_url_def)
  have u: "urlparse_scheme (python demo_web) ''https://text.example'' = Inr ''https''"
    by (simp add: python_def text_url_scheme)
  have r: "raise_for_status text_page = Inr ()"
    by (simp add: raise_for_status_def text_page_def page_def)
  have k: "round_kb (content_length text_page) = 1"
    by (simp add: round_kb_def text_page_def page_def)
  have h: "headers_get_content_type text_page = ''text/plain''"
    by (simp add: headers_get_content_type_def text_page_def page_def)
  have c: "\<not> contains ''application/json'' (headers_get_content_type text_page)"
    unfolding h by (rule not_contains_plain)
  show ?thesis
    by (simp add: extract_json_from_url_def try_block_def process_response_def Let_def
        u g r c t s l x j k h day1_def)
qed

text \<open>
  C6. \<open>find_json_objects\<close> runs each of the three patterns over the whole text and returns
  the matches of the first, then of the second, then of the third, each in the order
  \<open>re.findall\<close> gives them and with nothing removed. Downstream, a candidate that
  \<open>json.loads\<close> rejects is dropped and a parsed one gives exactly one object, so no object
  comes from a rejected candidate and nothing is raised. On the text \<open>{a:{b:1}}\<close> the
  first pattern gives the whole text as the only candidate, the parse fails, the text
  method returns no object and the extraction of a page with that body ends in the no-JSON
  result.
\<close>

theorem find_json_objects_candidates:
  \<open>find_json_objects L txt = concat (map (\<lambda>p. re_findall L p txt) patterns) \<and>
   length patterns = 3 \<and>
   extract_json_from_text L txt =
     concat (map (\<lambda>c. case json_loads L c of
                          Inr v \<Rightarrow> [\<lparr>object_type = ''text_pattern'', object_data = v,
                                     script_type = None\<rparr>]
                        | Inl e \<Rightarrow> [])
               (find_json_objects L txt)) \<and>
   find_json_objects (python web) ''{a:{b:1}}'' = [''{a:{b:1}}''] \<and>
   json_loads (python web) ''{a:{b:1}}'' = Inl (Exn False True ''Expecting value'') \<and>
   extract_json_from_text (python web) ''{a:{b:1}}'' = [] \<and>
   find_json_objects (python web) ''{"a":1}{"a":1}'' = [''{"a":1}'', ''{"a":1}''] \<and>
   extract_json_from_url (python demo_web) day1 ''https://text.example'' =
     \<lparr>success = False, url = ''https://text.example'', data = None, json_objects = [],
      error = Some ''No JSON data found in the provided URL'', content_type = Some ''text/plain'',
      size_kb = 1, extraction_method = None, timestamp = ''2024-05-01T10:00:00''\<rparr>\<close>
proof (intro conjI)
  show "find_json_objects L txt = concat (map (\<lambda>p. re_findall L p txt) patterns)"
    by (rule find_json_objects_concat)
  show "length patterns = 3"
    by (simp add: patterns_def)
  show "extract_json_from_text L txt =
     concat (map (\<lambda>c. case json_loads L c of
                          Inr v \<Rightarrow> [\<lparr>object_type = ''text_pattern'', object_data = v,
                                     script_type = None\<rparr>]
                        | Inl e \<Rightarrow> [])
               (find_json_objects L txt))"
    by (simp add: extract_json_from_text_def parse_matches_concat)
  show "find_json_objects (python web) ''{a:{b:1}}'' = [''{a:{b:1}}'']"
    by (rule ab_candidates)
  show "json_loads (python web) ''{a:{b:1}}'' = Inl (Exn False True ''Expecting value'')"
    by (simp add: python_def ab_json)
  show "extract_json_from_text (python web) ''{a:{b:1}}'' = []"
    by (simp add: extract_json_from_text_def ab_candidates) (simp add: python_def ab_json)
  show \<open>find_json_objects (python web) ''{"a":1}{"a":1}'' = [''{"a":1}'', ''{"a":1}'']\<close>
    using twice_matches by (simp add: find_json_objects_concat python_def)
  show "extract_json_from_url (python demo_web) day1 ''https://text.example'' =
     \<lparr>success = False, url = ''https://text.example'', data = None, json_objects = [],
      error = Some ''No JSON data found in the provided URL'', content_type = Some ''text/plain'',
      size_kb = 1, extraction_method = None, timestamp = ''2024-05-01T10:00:00''\<rparr>"
    by (rule text_extraction)
qed

lemma script_tags_loop_append:
  "script_tags_loop L (xs @ ys) = script_tags_loop L xs @ script_tags_loop L ys"
  by (induction xs) (simp_all split: option.splits)

lemma ld_script_objects_any:
  assumes \<open>map (\<lambda>p. re_findall L p ''{"a":1}'') patterns = [[], [''{"a":1}''], []]\<close>
    and \<open>json_loads L ''{"a":1}'' = Inr (JObject [(''a'', JInt 1)])\<close>
  shows \<open>script_tags_loop L
     [\<lparr>tag_type = Some ''application/ld+json'', tag_string = Some ''{"a":1}''\<rparr>] =
   [\<lparr>object_type = ''script_tag'', object_data = JObject [(''a'', JInt 1)],
     script_type = Some ''application/ld+json''\<rparr>]\<close>
proof -
  have c: \<open>find_json_objects L ''{"a":1}'' = [''{"a":1}'']\<close>
    using assms(1) by (simp add: find_json_objects_concat)
  show ?thesis
    by (simp add: c) (simp add: assms(2))
qed

lemma ld_script_objects:
  \<open>script_tags_loop (python web)
     [\<lparr>tag_type = Some ''application/ld+json'', tag_string = Some ''{"a":1}''\<rparr>] =
   [\<lparr>object_type = ''script_tag'', object_data = JObject [(''a'', JInt 1)],
     script_type = Some ''application/ld+json''\<rparr>]\<close>
proof (rule ld_script_objects_any)
  show \<open>map (\<lambda>p. re_findall (python web) p ''{"a":1}'') patterns = [[], [''{"a":1}''], []]\<close>
    using a1_matches by (simp add: python_def)
  show \<open>json_loads (python web) ''{"a":1}'' = Inr (JObject [(''a'', JInt 1)])\<close>
    by (simp add: python_def a1_json)
qed

text \<open>
  C1, as the code has it, for whatever the libraries are. The page is fetched and has no
  JSON content type; \<open>find_all('script')\<close> finds in its body the script element
  \<open><script type="application/ld+json">{"a":1}</script>\<close>, and the script elements before
  and after it yield no object; of the three patterns the second alone finds a candidate in
  the text \<open>{"a":1}\<close>, the text itself, and \<open>json.loads\<close> parses it to the object with
  \<open>a\<close> = 1. Then the page is answered by the script-tag method, which comes before the
  JSON-LD method and reads every script element: the result has method \<open>script_tags\<close> and
  exactly one object, of type \<open>script_tag\<close> with script type \<open>application/ld+json\<close>, whose
  data is the object with \<open>a\<close> = 1.
\<close>

theorem json_ld_block_found_by_script_tags:
  assumes \<open>urlparse_scheme L u = Inr scheme\<close>
    and \<open>session_get L (fetched_url scheme u) = Inr resp\<close>
    and \<open>raise_for_status resp = Inr ()\<close>
    and \<open>\<not> contains ''application/json'' (headers_get_content_type resp)\<close>
    and \<open>find_all_script L (response_text resp) =
           Inr (before @ [\<lparr>tag_type = Some ''application/ld+json'',
                            tag_string = Some ''{"a":1}''\<rparr>] @ after)\<close>
    and \<open>script_tags_loop L before = []\<close>
    and \<open>script_tags_loop L after = []\<close>
    and \<open>map (\<lambda>p. re_findall L p ''{"a":1}'') patterns = [[], [''{"a":1}''], []]\<close>
    and \<open>json_loads L ''{"a":1}'' = Inr (JObject [(''a'', JInt 1)])\<close>
  shows \<open>extract_json_from_url L now u =
     \<lparr>success = True, url = u, data = None,
      json_objects = [\<lparr>object_type = ''script_tag'', object_data = JObject [(''a'', JInt 1)],
                       script_type = Some ''application/ld+json''\<rparr>],
      error = None, content_type = Some (headers_get_content_type resp),
      size_kb = round_kb (content_length resp),
      extraction_method = Some ''script_tags'', timestamp = isoformat now\<rparr>\<close>
proof -
  note ld = ld_script_objects_any [OF assms(8) assms(9)]
  have s: \<open>extract_json_from_script_tags L (response_text resp) =
     Inr [\<lparr>object_type = ''script_tag'', object_data = JObject [(''a'', JInt 1)],
           script_type = Some ''application/ld+json''\<rparr>]\<close>
    unfolding extract_json_from_script_tags_def assms(5)
    by (simp only: sum.case script_tags_loop_append assms(6) assms(7) ld
        append_Nil append_Nil2)
  show ?thesis
    using assms(3) assms(4)
    by (simp add: extract_json_from_url_def try_block_def process_response_def Let_def
        assms(1) assms(2) s)
qed

lemma plain_script_objects:
  "script_tags_loop (python web) [\<lparr>tag_type = None, tag_string = Some ''var n = 1;''\<rparr>] = []"
  using plain_script_matches by (simp add: find_json_objects_concat python_def)

theorem json_ld_block_found_by_script_tags_witness:
  \<open>extract_json_from_url (python demo_web) day1 ''https://shop.example'' =
     \<lparr>success = True, url = ''https://shop.example'', data = None,
      json_objects = [\<lparr>object_type = ''script_tag'', object_data = JObject [(''a'', JInt 1)],
                       script_type = Some ''application/ld+json''\<rparr>],
      error = None, content_type = Some ''text/html'', size_kb = 9,
      extraction_method = Some ''script_tags'', timestamp = ''2024-05-01T10:00:00''\<rparr>\<close>
proof -
  have 1: "urlparse_scheme (python demo_web) ''https://shop.example'' = Inr ''https''"
    by (simp add: python_def shop_url_scheme)
  have 2: "session_get (python demo_web) (fetched_url ''https'' ''https://shop.example'') =
           Inr shop_page"
    by (simp add: python_def demo_web_def fetched_url_def)
  have 3: "raise_for_status shop_page = Inr ()"
    by (simp add: raise_for_status_def shop_page_def page_def)
  have h: "headers_get_content_type shop_page = ''text/html''"
    by (simp add: headers_get_content_type_def shop_page_def page_def)
  have 4: "\<not> contains ''application/json'' (headers_get_content_type shop_page)"
    unfolding h by (rule not_contains_html)
  have 5: \<open>find_all_script (python demo_web) (response_text shop_page) =
           Inr ([\<lparr>tag_type = None, tag_string = Some ''var n = 1;''\<rparr>] @
                [\<lparr>tag_type = Some ''application/ld+json'', tag_string = Some ''{"a":1}''\<rparr>] @ [])\<close>
    using shop_scripts by (simp add: shop_page_def page_def python_def)
  have 6: "script_tags_loop (python demo_web)
             [\<lparr>tag_type = None, tag_string = Some ''var n = 1;''\<rparr>] = []"
    by (rule plain_script_objects)
  have 7: "script_tags_loop (python demo_web) [] = []"
    by simp
  have 8: \<open>map (\<lambda>p. re_findall (python demo_web) p ''{"a":1}'') patterns =
           [[], [''{"a":1}''], []]\<close>
    using a1_matches by (simp add: python_def)
  have 9: \<open>json_loads (python demo_web) ''{"a":1}'' = Inr (JObject [(''a'', JInt 1)])\<close>
    by (simp add: python_def a1_json)
  have k: "round_kb (content_length shop_page) = 9"
    by (simp add: round_kb_def shop_page_def page_def)
  from json_ld_block_found_by_script_tags [where L = "python demo_web" and now = day1,
      OF 1 2 3 4 5 6 7 8 9]
  show ?thesis by (simp add: h k day1_def)
qed

theorem json_ld_method_counterexample:
  \<open>response_text shop_page = ''<p>Shop</p><script>var n = 1;</script><script type="application/ld+json">{"a":1}</script>'' \<and>
   header_content_type shop_page = Some ''text/html'' \<and>
   session_get (python demo_web) ''https://shop.example'' = Inr shop_page \<and>
   extraction_method (extract_json_from_url (python demo_web) day1 ''https://shop.example'')
     = Some ''script_tags'' \<and>
   extraction_method (extract_json_from_url (python demo_web) day1 ''https://shop.example'')
     \<noteq> Some ''json_ld''\<close>
proof -
  have u: "urlparse_scheme (python demo_web) ''https://shop.example'' = Inr ''https''"
    by (simp add: python_def shop_url_scheme)
  have g: "session_get (python demo_web) (fetched_url ''https'' ''https://shop.example'') = Inr shop_page"
    by (simp add: python_def demo_web_def fetched_url_def)
  have 3: "raise_for_status shop_page = Inr ()"
    by (simp add: raise_for_status_def shop_page_def page_def)
  have h: "headers_get_content_type shop_page = ''text/html''"
    by (simp add: headers_get_content_type_def shop_page_def page_def)
  have 4: "\<not> contains ''application/json'' (headers_get_content_type shop_page)"
    unfolding h by (rule not_contains_html)
  have s: \<open>extract_json_from_script_tags (python demo_web) (response_text shop_page) =
     Inr [\<lparr>object_type = ''script_tag'', object_data = JObject [(''a'', JInt 1)],
           script_type = Some ''application/ld+json''\<rparr>]\<close>
  proof -
    have \<open>find_all_script (python demo_web) (response_text shop_page) =
       Inr ([\<lparr>tag_type = None, tag_string = Some ''var n = 1;''\<rparr>] @
            [\<lparr>tag_type = Some ''application/ld+json'', tag_string = Some ''{"a":1}''\<rparr>])\<close>
      using shop_scripts by (simp add: shop_page_def page_def python_def)
    then show ?thesis
      unfolding extract_json_from_script_tags_def
      by (simp only: sum.case script_tags_loop_append plain_script_objects ld_script_objects
          append_Nil)
  qed
  have m: "extraction_method (extract_json_from_url (python demo_web) day1 ''https://shop.example'')
     = Some ''script_tags''"
    by (simp add: extract_json_from_url_def try_block_def process_response_def Let_def u g 3 4 s)
  have p: \<open>response_text shop_page = ''<p>Shop</p><script>var n = 1;</script><script type="application/ld+json">{"a":1}</script>'' \<and>
   header_content_type shop_page = Some ''text/html'' \<and>
   session_get (python demo_web) ''https://shop.example'' = Inr shop_page\<close>
    by (simp add: shop_page_def page_def python_def demo_web_def)
  from m p show ?thesis by simp
qed

text \<open>
  The JSON-LD method is reached when no script element yields an object to the script-tag
  method: the array \<open>[1,2]\<close> holds no brace, so no pattern matches it, and it parses as a
  whole.
\<close>

lemma json_ld_reached_example:
  "script_tags_loop (python web)
      [\<lparr>tag_type = Some ''application/ld+json'', tag_string = Some ''[1,2]''\<rparr>] = [] \<and>
   json_ld_loop (python web)
      [\<lparr>tag_type = Some ''application/ld+json'', tag_string = Some ''[1,2]''\<rparr>] =
      [\<lparr>object_type = ''json_ld'', object_data = JArray [JInt 1, JInt 2], script_type = None\<rparr>]"
proof -
  have m: "map (\<lambda>p. py_findall p ''[1,2]'') patterns = [[], [], []]"
    by (simp add: patterns_def)
  have j: "py_json_loads ''[1,2]'' = Inr (JArray [JInt 1, JInt 2])"
    by (simp add: json_eval)
  have c: "find_json_objects (python web) ''[1,2]'' = []"
    using m by (simp add: find_json_objects_concat python_def)
  have t: "script_tags_loop (python web)
      [\<lparr>tag_type = Some ''application/ld+json'', tag_string = Some ''[1,2]''\<rparr>] = []"
    by (simp add: c)
  have l: "json_ld_loop (python web)
      [\<lparr>tag_type = Some ''application/ld+json'', tag_string = Some ''[1,2]''\<rparr>] =
      [\<lparr>object_type = ''json_ld'', object_data = JArray [JInt 1, JInt 2], script_type = None\<rparr>]"
    by (simp add: python_def j)
  from t l show ?thesis by simp
qed

lemma find_json_objects_web [simp]:
  "find_json_objects (L\<lparr>session_get := web\<rparr>) txt = find_json_objects L txt"
  by (simp add: find_json_objects_def)

lemma parse_matches_web [simp]:
  "parse_matches (L\<lparr>session_get := web\<rparr>) mk ms = parse_matches L mk ms"
  by (induction ms) (simp_all split: sum.splits)

lemma script_tags_loop_web [simp]:
  "script_tags_loop (L\<lparr>session_get := web\<rparr>) scripts = script_tags_loop L scripts"
  by (induction scripts) (simp_all split: option.splits)

lemma json_ld_loop_web [simp]:
  "json_ld_loop (L\<lparr>session_get := web\<rparr>) scripts = json_ld_loop L scripts"
  by (induction scripts) (simp_all split: option.splits sum.splits)

lemma process_response_web:
  "process_response (L\<lparr>session_get := web\<rparr>) r0 resp = process_response L r0 resp"
  by (simp add: process_response_def extract_json_from_script_tags_def extract_json_ld_def
      extract_json_from_text_def cong: sum.case_cong option.case_cong if_cong)

lemma shop_page_processed:
  \<open>process_response (python demo_web) r0 shop_page =
     Inr (r0\<lparr>content_type := Some ''text/html'', size_kb := 9,
              json_objects := [\<lparr>object_type = ''script_tag'',
                                 object_data = JObject [(''a'', JInt 1)],
                                 script_type = Some ''application/ld+json''\<rparr>],
              extraction_method := Some ''script_tags'', success := True\<rparr>)\<close>
proof -
  have 3: "raise_for_status shop_page = Inr ()"
    by (simp add: raise_for_status_def shop_page_def page_def)
  have h: "headers_get_content_type shop_page = ''text/html''"
    by (simp add: headers_get_content_type_def shop_page_def page_def)
  have k: "round_kb (content_length shop_page) = 9"
    by (simp add: round_kb_def shop_page_def page_def)
  have f: \<open>find_all_script (python demo_web) (response_text shop_page) =
       Inr ([\<lparr>tag_type = None, tag_string = Some ''var n = 1;''\<rparr>] @
            [\<lparr>tag_type = Some ''application/ld+json'', tag_string = Some ''{"a":1}''\<rparr>])\<close>
    using shop_scripts by (simp add: shop_page_def page_def python_def)
  have s: \<open>extract_json_from_script_tags (python demo_web) (response_text shop_page) =
     Inr [\<lparr>object_type = ''script_tag'', object_data = JObject [(''a'', JInt 1)],
           script_type = Some ''application/ld+json''\<rparr>]\<close>
    unfolding extract_json_from_script_tags_def f
    by (simp only: sum.case script_tags_loop_append plain_script_objects ld_script_objects
        append_Nil)
  show ?thesis
    by (simp add: process_response_def Let_def 3 h k s starts_with_def)
qed

text \<open>
  C3, as the code has it. The \<open>url\<close> entry of the result is the input URL exactly as it
  was given, with or without scheme; the scheme is added to the local variable only. When
  \<open>urlparse\<close> finds no scheme in the input, the one request goes to \<open>https://\<close> followed by
  the input, and the result is made of what that request gives: an exception of it is
  reported as the failure to fetch (a \<open>RequestException\<close>) or as an extraction error, and a
  response of it is the one the strategies run on. When \<open>urlparse\<close> finds a scheme, the
  same holds of the request to the input as given. No other URL is requested: with any
  other network that answers this one URL alike the result is the same.
\<close>

theorem url_entry_is_the_input:
  "url (extract_json_from_url L now u) = u \<and>
   (urlparse_scheme L u = Inr scheme \<longrightarrow>
    (let target = (if scheme = [] then ''https://'' @ u else u);
         results = \<lparr>success = False, url = u, data = None, json_objects = [], error = None,
                     content_type = None, size_kb = 0, extraction_method = None,
                     timestamp = isoformat now\<rparr>
     in (session_get L target = Inl e \<longrightarrow>
           extract_json_from_url L now u =
             results\<lparr>error := Some ((if is_RequestException e then ''Failed to fetch the URL: ''
                                      else ''Extraction error: '') @ message e)\<rparr>) \<and>
        (session_get L target = Inr resp \<longrightarrow>
           extract_json_from_url L now u =
             (case process_response L results resp of
                Inr r \<Rightarrow> r
              | Inl (e', r) \<Rightarrow>
                  r\<lparr>error := Some ((if is_RequestException e' then ''Failed to fetch the URL: ''
                                     else ''Extraction error: '') @ message e')\<rparr>)) \<and>
        (web target = session_get L target \<longrightarrow>
           extract_json_from_url (L\<lparr>session_get := web\<rparr>) now u = extract_json_from_url L now u)))"
proof (intro conjI impI)
  show "url (extract_json_from_url L now u) = u"
    by (rule extract_url_field)
next
  assume s: "urlparse_scheme L u = Inr scheme"
  let ?target = "if scheme = [] then ''https://'' @ u else u"
  let ?results = "\<lparr>success = False, url = u, data = None, json_objects = [], error = None,
                     content_type = None, size_kb = 0, extraction_method = None,
                     timestamp = isoformat now\<rparr>"
  have t: "fetched_url scheme u = ?target"
    by (simp add: fetched_url_def)
  have a: "extract_json_from_url L now u =
             ?results\<lparr>error := Some ((if is_RequestException e then ''Failed to fetch the URL: ''
                                      else ''Extraction error: '') @ message e)\<rparr>"
    if "session_get L ?target = Inl e"
    using that s t by (simp add: extract_json_from_url_def try_block_def)
  have b: "extract_json_from_url L now u =
             (case process_response L ?results resp of
                Inr r \<Rightarrow> r
              | Inl (e', r) \<Rightarrow>
                  r\<lparr>error := Some ((if is_RequestException e' then ''Failed to fetch the URL: ''
                                     else ''Extraction error: '') @ message e')\<rparr>)"
    if "session_get L ?target = Inr resp"
    using that s t
    by (simp add: extract_json_from_url_def try_block_def split: sum.splits prod.splits)
  have c: "extract_json_from_url (L\<lparr>session_get := web\<rparr>) now u = extract_json_from_url L now u"
    if "web ?target = session_get L ?target"
  proof -
    from that s t have "try_block (L\<lparr>session_get := web\<rparr>) r0 u = try_block L r0 u" for r0
      by (cases "session_get L (fetched_url scheme u)")
         (simp_all add: try_block_def process_response_web)
    then show ?thesis by (simp add: extract_json_from_url_def)
  qed
  from a b c
  show "let target = (if scheme = [] then ''https://'' @ u else u);
         results = \<lparr>success = False, url = u, data = None, json_objects = [], error = None,
                     content_type = None, size_kb = 0, extraction_method = None,
                     timestamp = isoformat now\<rparr>
     in (session_get L target = Inl e \<longrightarrow>
           extract_json_from_url L now u =
             results\<lparr>error := Some ((if is_RequestException e then ''Failed to fetch the URL: ''
                                      else ''Extraction error: '') @ message e)\<rparr>) \<and>
        (session_get L target = Inr resp \<longrightarrow>
           extract_json_from_url L now u =
             (case process_response L results resp of
                Inr r \<Rightarrow> r
              | Inl (e', r) \<Rightarrow>
                  r\<lparr>error := Some ((if is_RequestException e' then ''Failed to fetch the URL: ''
                                     else ''Extraction error: '') @ message e')\<rparr>)) \<and>
        (web target = session_get L target \<longrightarrow>
           extract_json_from_url (L\<lparr>session_get := web\<rparr>) now u = extract_json_from_url L now u)"
    unfolding Let_def by blast
qed

text \<open>
  On the small web: \<open>shop.example\<close> has no scheme, the page of \<open>https://shop.example\<close> is
  fetched and answered, and the \<open>url\<close> entry is \<open>shop.example\<close>; \<open>nowhere.example\<close> has no
  scheme either, the request to \<open>https://nowhere.example\<close> is refused, and the result is
  the failure to fetch it.
\<close>

theorem url_entry_is_the_input_witness:
  \<open>urlparse_scheme (python demo_web) ''shop.example'' = Inr [] \<and>
   session_get (python demo_web) ''https://shop.example'' = Inr shop_page \<and>
   session_get (python demo_web) ''shop.example'' = Inl (Exn True False ''Connection refused'') \<and>
   extract_json_from_url (python demo_web) day1 ''shop.example'' =
     \<lparr>success = True, url = ''shop.example'', data = None,
      json_objects = [\<lparr>object_type = ''script_tag'', object_data = JObject [(''a'', JInt 1)],
                       script_type = Some ''application/ld+json''\<rparr>],
      error = None, content_type = Some ''text/html'', size_kb = 9,
      extraction_method = Some ''script_tags'', timestamp = ''2024-05-01T10:00:00''\<rparr> \<and>
   extract_json_from_url ((python demo_web)\<lparr>session_get := \<lambda>x. Inr shop_page\<rparr>) day1 ''shop.example''
     = extract_json_from_url (python demo_web) day1 ''shop.example'' \<and>
   urlparse_scheme (python demo_web) ''nowhere.example'' = Inr [] \<and>
   session_get (python demo_web) ''https://nowhere.example'' =
     Inl (Exn True False ''Connection refused'') \<and>
   extract_json_from_url (python demo_web) day1 ''nowhere.example'' =
     \<lparr>success = False, url = ''nowhere.example'', data = None, json_objects = [],
      error = Some ''Failed to fetch the URL: Connection refused'', content_type = None,
      size_kb = 0, extraction_method = None, timestamp = ''2024-05-01T10:00:00''\<rparr>\<close>
proof -
  have s1: "urlparse_scheme (python demo_web) ''shop.example'' = Inr []"
    by (simp add: python_def bare_url_scheme)
  have g1: "session_get (python demo_web) ''https://shop.example'' = Inr shop_page"
    by (simp add: python_def demo_web_def)
  have g0: "session_get (python demo_web) ''shop.example'' =
            Inl (Exn True False ''Connection refused'')"
    by (simp add: python_def demo_web_def)
  have s2: "urlparse_scheme (python demo_web) ''nowhere.example'' = Inr []"
    by (simp add: python_def nowhere_url_scheme)
  have g2: "session_get (python demo_web) ''https://nowhere.example'' =
            Inl (Exn True False ''Connection refused'')"
    by (simp add: python_def demo_web_def)
  note a = url_entry_is_the_input [of "python demo_web" day1 "''shop.example''" "[]"
      "Exn True False ''Connection refused''" shop_page "\<lambda>x. Inr shop_page"]
  from a s1 g1
  have r1: \<open>extract_json_from_url (python demo_web) day1 ''shop.example'' =
     \<lparr>success = True, url = ''shop.example'', data = None,
      json_objects = [\<lparr>object_type = ''script_tag'', object_data = JObject [(''a'', JInt 1)],
                       script_type = Some ''application/ld+json''\<rparr>],
      error = None, content_type = Some ''text/html'', size_kb = 9,
      extraction_method = Some ''script_tags'', timestamp = ''2024-05-01T10:00:00''\<rparr>\<close>
    by (simp add: shop_page_processed day1_def)
  from a s1 g1
  have r2: "extract_json_from_url ((python demo_web)\<lparr>session_get := \<lambda>x. Inr shop_page\<rparr>)
      day1 ''shop.example'' = extract_json_from_url (python demo_web) day1 ''shop.example''"
    by simp
  note b = url_entry_is_the_input [of "python demo_web" day1 "''nowhere.example''" "[]"
      "Exn True False ''Connection refused''" shop_page "\<lambda>x. Inr shop_page"]
  from b s2 g2
  have r3: "extract_json_from_url (python demo_web) day1 ''nowhere.example'' =
     \<lparr>success = False, url = ''nowhere.example'', data = None, json_objects = [],
      error = Some ''Failed to fetch the URL: Connection refused'', content_type = None,
      size_kb = 0, extraction_method = None, timestamp = ''2024-05-01T10:00:00''\<rparr>"
    by (simp add: day1_def)
  from s1 g1 g0 r1 r2 s2 g2 r3 show ?thesis by blast
qed

theorem url_entry_normalized_counterexample:
  "urlparse_scheme (python demo_web) ''shop.example'' = Inr [] \<and>
   url (extract_json_from_url (python demo_web) day1 ''shop.example'') \<noteq> ''https://shop.example''"
  by (simp add: extract_url_field python_def bare_url_scheme)

section \<open>Properties of the route\<close>

lemma validate_accepts:
  assumes "validate_api_key now k km = (Inr kd, km1)"
  shows "map_of (api_keys km) k = Some kd \<and> api_keys km1 = api_keys km \<and>
         ledger_total (usage_data km1) k = ledger_total (usage_data km) k"
proof -
  from assms have kd: "map_of (api_keys km) k = Some kd"
    by (auto simp: validate_api_key_def Let_def split: option.splits if_splits)
  from assms have km1: "km1 = snd (validate_api_key now k km)" by simp
  have keys: "api_keys km1 = api_keys km"
    unfolding km1 by (rule keys_after_validate)
  from usage_after_validate [of now k km]
  have "ledger_total (usage_data km1) k = ledger_total (usage_data km) k"
    unfolding km1 by (auto simp: ledger_total_update)
  with kd keys show ?thesis by simp
qed

lemma record_usage_known:
  assumes "map_of (api_keys km1) k = Some kd"
  shows "fst (record_usage now now2 k km1) = Inr () \<and>
         ledger_total (usage_data (snd (record_usage now now2 k km1))) k =
           ledger_total (usage_data km1) k + 1 \<and>
         map_of (api_keys (snd (record_usage now now2 k km1))) k =
           Some (kd\<lparr>total_requests := total_requests kd + 1,
                    last_used := Some (isoformat now2)\<rparr>)"
proof -
  from assms have "fst (record_usage now now2 k km1) = Inr ()"
    by (simp add: record_usage_def Let_def)
  moreover have "ledger_total (usage_data (snd (record_usage now now2 k km1))) k =
           ledger_total (usage_data km1) k + 1"
    by (simp add: usage_after_record ledger_total_update)
  moreover from assms have "map_of (api_keys (snd (record_usage now now2 k km1))) k =
           Some (kd\<lparr>total_requests := total_requests kd + 1,
                    last_used := Some (isoformat now2)\<rparr>)"
    by (simp add: keys_after_record map_of_update_same)
  ultimately show ?thesis by simp
qed

lemma data_get_object:
  "data_get (JObject kvs) key = Inr (case map_of kvs key of None \<Rightarrow> JNull | Some v \<Rightarrow> v)"
  by (simp add: data_get_def)

lemma data_get_raises:
  "(\<exists>e. data_get body key = Inl e) = (\<forall>kvs. body \<noteq> JObject kvs)"
  by (cases body) (simp_all add: data_get_def)

text \<open>
  C4, as the code has it. For a request whose key passes \<open>validate_api_key\<close> there are five
  ways through the route, and \<open>record_usage\<close> is called on one of them.
  \<^item> The body is a true value with the method \<open>get\<close> (a dict that is not empty) and holds a
    true value under \<open>url\<close>: the reply is the extraction result with status 200, whether the
    extraction succeeded or not, and the manager is the one \<open>record_usage\<close> leaves, called
    once on the validated manager; the key's ledger and its \<open>total_requests\<close> both grow by
    one.
  \<^item> Reading \<open>request.json\<close> aborts the request (no JSON content type, or a body that does
    not parse): the reply is the HTTP error.
  \<^item> The body is a false value (\<open>null\<close>, \<open>false\<close>, zero, or an empty string, list or
    dict): the reply is 400, JSON data required.
  \<^item> The body is a true value without the method \<open>get\<close> (a number, \<open>true\<close>, or a string or
    list that is not empty): the \<open>AttributeError\<close> leaves the function, the reply is 500.
  \<^item> The body is a dict without a true value under \<open>url\<close>: the reply is 400, URL
    parameter required.

  On the last four \<open>record_usage\<close> is not called: the manager is the validated one, in
  which the ledger total of the key and its record are unchanged.
\<close>

theorem usage_recorded_once_per_extraction:
  assumes "request_api_key req = k" and "k \<noteq> []"
    and "validate_api_key (at_validate clk) k km = (Inr kd, km1)"
  shows "(request_json req = Inr body \<and> truthy body \<and> data_get body ''url'' = Inr u \<and> truthy u \<longrightarrow>
            api_extract_json L clk req km =
              ((extract_json_from_url_value L (at_extract clk) u, 200),
               snd (record_usage (at_usage clk) (at_last_used clk) k km1)) \<and>
            fst (record_usage (at_usage clk) (at_last_used clk) k km1) = Inr () \<and>
            ledger_total (usage_data (snd (api_extract_json L clk req km))) k =
              ledger_total (usage_data km) k + 1 \<and>
            map_of (api_keys (snd (api_extract_json L clk req km))) k =
              Some (kd\<lparr>total_requests := total_requests kd + 1,
                       last_used := Some (isoformat (at_last_used clk))\<rparr>)) \<and>
         (request_json req = Inl status \<longrightarrow>
            api_extract_json L clk req km = ((Aborted, status), km1)) \<and>
         (request_json req = Inr body \<and> \<not> truthy body \<longrightarrow>
            api_extract_json L clk req km = ((Failure ''JSON data required'', 400), km1)) \<and>
         (request_json req = Inr body \<and> truthy body \<and> data_get body ''url'' = Inl e \<longrightarrow>
            api_extract_json L clk req km = ((InternalServerError, 500), km1)) \<and>
         (request_json req = Inr body \<and> truthy body \<and> data_get body ''url'' = Inr u \<and> \<not> truthy u \<longrightarrow>
            api_extract_json L clk req km = ((Failure ''URL parameter required'', 400), km1)) \<and>
         ledger_total (usage_data km1) k = ledger_total (usage_data km) k \<and>
         map_of (api_keys km1) k = Some kd \<and>
         km1 \<noteq> snd (record_usage (at_usage clk) (at_last_used clk) k km1)"
proof -
  note v = validate_accepts [OF assms(3)]
  from v have kd1: "map_of (api_keys km1) k = Some kd" by simp
  note ru = record_usage_known [OF kd1, of "at_usage clk" "at_last_used clk"]
  obtain km2 where km2: "record_usage (at_usage clk) (at_last_used clk) k km1 = (Inr (), km2)"
    using ru by (cases "record_usage (at_usage clk) (at_last_used clk) k km1") simp
  have recorded:
    "api_extract_json L clk req km =
              ((extract_json_from_url_value L (at_extract clk) u, 200),
               snd (record_usage (at_usage clk) (at_last_used clk) k km1)) \<and>
            fst (record_usage (at_usage clk) (at_last_used clk) k km1) = Inr () \<and>
            ledger_total (usage_data (snd (api_extract_json L clk req km))) k =
              ledger_total (usage_data km) k + 1 \<and>
            map_of (api_keys (snd (api_extract_json L clk req km))) k =
              Some (kd\<lparr>total_requests := total_requests kd + 1,
                       last_used := Some (isoformat (at_last_used clk))\<rparr>)"
    if h: "request_json req = Inr body \<and> truthy body \<and> data_get body ''url'' = Inr u \<and> truthy u"
  proof -
    have res: "api_extract_json L clk req km =
              ((extract_json_from_url_value L (at_extract clk) u, 200),
               snd (record_usage (at_usage clk) (at_last_used clk) k km1))"
      using assms h km2 by (simp add: api_extract_json_def Let_def)
    from ru v show ?thesis by (simp add: res)
  qed
  have aborted: "api_extract_json L clk req km = ((Aborted, status), km1)"
    if "request_json req = Inl status"
    using assms that by (simp add: api_extract_json_def Let_def)
  have nodata: "api_extract_json L clk req km = ((Failure ''JSON data required'', 400), km1)"
    if "request_json req = Inr body \<and> \<not> truthy body"
    using assms that by (simp add: api_extract_json_def Let_def)
  have noget: "api_extract_json L clk req km = ((InternalServerError, 500), km1)"
    if "request_json req = Inr body \<and> truthy body \<and> data_get body ''url'' = Inl e"
    using assms that by (simp add: api_extract_json_def Let_def)
  have nourl: "api_extract_json L clk req km = ((Failure ''URL parameter required'', 400), km1)"
    if "request_json req = Inr body \<and> truthy body \<and> data_get body ''url'' = Inr u \<and> \<not> truthy u"
    using assms that by (simp add: api_extract_json_def Let_def)
  have same: "ledger_total (usage_data km1) k = ledger_total (usage_data km) k \<and>
              map_of (api_keys km1) k = Some kd"
    using v by simp
  have differs: "km1 \<noteq> snd (record_usage (at_usage clk) (at_last_used clk) k km1)"
  proof
    assume "km1 = snd (record_usage (at_usage clk) (at_last_used clk) k km1)"
    then have "ledger_total (usage_data (snd (record_usage (at_usage clk) (at_last_used clk) k km1))) k
               = ledger_total (usage_data km1) k"
      by simp
    with ru show False by simp
  qed
  from recorded aborted nodata noget nourl same differs show ?thesis by blast
qed

lemma one_key_accepted:
  "fst (validate_api_key day1 ''api_k1'' one_key) =
     Inr \<lparr>user_email = ''a@b.c'', api_key = ''api_k1'', plan_type = ''free'',
           requests_per_day = 100, rate_limit = 10, created_at = ''2024-05-01T10:00:00'',
           is_active = True, total_requests = 0, last_used = None\<rparr>"
  by (simp add: validate_api_key_result one_key_record one_key_usage ledger_count_def
      dict_get_def)

lemma one_key_validates:
  "validate_api_key day1 ''api_k1'' one_key =
     (Inr \<lparr>user_email = ''a@b.c'', api_key = ''api_k1'', plan_type = ''free'',
           requests_per_day = 100, rate_limit = 10, created_at = ''2024-05-01T10:00:00'',
           is_active = True, total_requests = 0, last_used = None\<rparr>,
      snd (validate_api_key day1 ''api_k1'' one_key))"
  using one_key_accepted by (metis surjective_pairing)

lemma request_with_body_key: "request_api_key (request_with_body body) = ''api_k1''"
  by (simp add: request_api_key_def request_with_body_def)

lemma request_with_url_key: "request_api_key (request_with_url u) = ''api_k1''"
  by (simp add: request_with_url_def request_with_body_key)

lemma request_with_body_json: "request_json (request_with_body body) = body"
  by (simp add: request_with_body_def)

text \<open>
  One request on each way through the route, with the key of \<open>one_key\<close>: the URL
  \<open>nowhere.example\<close>, whose extraction fails and is recorded; the number 5 as URL, whose
  extraction fails on the type and is recorded; a request without JSON content type; the
  body \<open>null\<close>; the body \<open>[1]\<close>; a dict without \<open>url\<close>.
\<close>

theorem usage_recorded_once_per_extraction_witness:
  "api_extract_json (python demo_web) demo_clock (request_with_url ''nowhere.example'') one_key =
     ((Extraction
         \<lparr>success = False, url = ''nowhere.example'', data = None, json_objects = [],
          error = Some ''Failed to fetch the URL: Connection refused'', content_type = None,
          size_kb = 0, extraction_method = None, timestamp = ''2024-05-01T10:00:00''\<rparr>, 200),
      snd (record_usage day1 day1 ''api_k1'' (snd (validate_api_key day1 ''api_k1'' one_key)))) \<and>
   ledger_total (usage_data (snd (api_extract_json (python demo_web) demo_clock
      (request_with_url ''nowhere.example'') one_key))) ''api_k1'' = 1 \<and>
   api_extract_json (python demo_web) demo_clock
      (request_with_body (Inr (JObject [(''url'', JInt 5)]))) one_key =
     ((ExtractionOfNonText (JInt 5)
         (''Extraction error: '' @ [CHR 0x27] @ ''int'' @ [CHR 0x27] @
          '' object has no attribute '' @ [CHR 0x27] @ ''decode'' @ [CHR 0x27])
         ''2024-05-01T10:00:00'', 200),
      snd (record_usage day1 day1 ''api_k1'' (snd (validate_api_key day1 ''api_k1'' one_key)))) \<and>
   api_extract_json (python demo_web) demo_clock (request_with_body (Inl 415)) one_key =
     ((Aborted, 415), snd (validate_api_key day1 ''api_k1'' one_key)) \<and>
   api_extract_json (python demo_web) demo_clock (request_with_body (Inr JNull)) one_key =
     ((Failure ''JSON data required'', 400), snd (validate_api_key day1 ''api_k1'' one_key)) \<and>
   api_extract_json (python demo_web) demo_clock
      (request_with_body (Inr (JArray [JInt 1]))) one_key =
     ((InternalServerError, 500), snd (validate_api_key day1 ''api_k1'' one_key)) \<and>
   api_extract_json (python demo_web) demo_clock
      (request_with_body (Inr (JObject [(''link'', JString ''shop.example'')]))) one_key =
     ((Failure ''URL parameter required'', 400), snd (validate_api_key day1 ''api_k1'' one_key)) \<and>
   ledger_total (usage_data (snd (validate_api_key day1 ''api_k1'' one_key))) ''api_k1'' = 0"
proof -
  let ?kd = "\<lparr>user_email = ''a@b.c'', api_key = ''api_k1'', plan_type = ''free'',
           requests_per_day = 100, rate_limit = 10, created_at = ''2024-05-01T10:00:00'',
           is_active = True, total_requests = 0, last_used = None\<rparr>"
  let ?km1 = "snd (validate_api_key day1 ''api_k1'' one_key)"
  let ?L = "python demo_web"
  have ne: "''api_k1'' \<noteq> []" by simp
  have v: "validate_api_key (at_validate demo_clock) ''api_k1'' one_key = (Inr ?kd, ?km1)"
    using one_key_validates by (simp add: demo_clock_def)
  have t0: "ledger_total (usage_data one_key) ''api_k1'' = 0"
    by (simp add: one_key_usage ledger_total_def)
  have clk: "at_extract demo_clock = day1" "at_usage demo_clock = day1"
    "at_last_used demo_clock = day1"
    by (simp_all add: demo_clock_def)

  let ?b1 = "JObject [(''url'', JString ''nowhere.example'')]"
  have h1: "request_json (request_with_url ''nowhere.example'') = Inr ?b1 \<and> truthy ?b1 \<and>
            data_get ?b1 ''url'' = Inr (JString ''nowhere.example'') \<and>
            truthy (JString ''nowhere.example'')"
    by (simp add: request_with_url_def request_with_body_json data_get_def)
  note a1 = usage_recorded_once_per_extraction [OF request_with_url_key ne v,
      where body = ?b1 and u = "JString ''nowhere.example''" and L = ?L]
  from a1 h1 have r1: "api_extract_json ?L demo_clock (request_with_url ''nowhere.example'') one_key =
     ((extract_json_from_url_value ?L (at_extract demo_clock) (JString ''nowhere.example''), 200),
      snd (record_usage (at_usage demo_clock) (at_last_used demo_clock) ''api_k1'' ?km1))"
    by blast
  from a1 h1 have l1: "ledger_total (usage_data (snd (api_extract_json ?L demo_clock
      (request_with_url ''nowhere.example'') one_key))) ''api_k1'' =
      ledger_total (usage_data one_key) ''api_k1'' + 1"
    by blast
  from a1 have l0: "ledger_total (usage_data ?km1) ''api_k1'' =
      ledger_total (usage_data one_key) ''api_k1''"
    by blast
  have c1: "api_extract_json ?L demo_clock (request_with_url ''nowhere.example'') one_key =
     ((Extraction
         \<lparr>success = False, url = ''nowhere.example'', data = None, json_objects = [],
          error = Some ''Failed to fetch the URL: Connection refused'', content_type = None,
          size_kb = 0, extraction_method = None, timestamp = ''2024-05-01T10:00:00''\<rparr>, 200),
      snd (record_usage day1 day1 ''api_k1'' ?km1))"
    unfolding r1 clk by (simp add: extract_json_from_url_value_def nowhere_extraction)
  have c2: "ledger_total (usage_data (snd (api_extract_json ?L demo_clock
      (request_with_url ''nowhere.example'') one_key))) ''api_k1'' = 1"
    using l1 t0 by simp

  let ?b2 = "JObject [(''url'', JInt 5)]"
  have h2: "request_json (request_with_body (Inr ?b2)) = Inr ?b2 \<and> truthy ?b2 \<and>
            data_get ?b2 ''url'' = Inr (JInt 5) \<and> truthy (JInt 5)"
    by (simp add: request_with_body_json data_get_def)
  note a2 = usage_recorded_once_per_extraction [OF request_with_body_key ne v,
      where body = ?b2 and u = "JInt 5" and L = ?L]
  from a2 h2 have r2: "api_extract_json ?L demo_clock (request_with_body (Inr ?b2)) one_key =
     ((extract_json_from_url_value ?L (at_extract demo_clock) (JInt 5), 200),
      snd (record_usage (at_usage demo_clock) (at_last_used demo_clock) ''api_k1'' ?km1))"
    by blast
  have c3: "api_extract_json ?L demo_clock (request_with_body (Inr ?b2)) one_key =
     ((ExtractionOfNonText (JInt 5)
         (''Extraction error: '' @ [CHR 0x27] @ ''int'' @ [CHR 0x27] @
          '' object has no attribute '' @ [CHR 0x27] @ ''decode'' @ [CHR 0x27])
         ''2024-05-01T10:00:00'', 200),
      snd (record_usage day1 day1 ''api_k1'' ?km1))"
    unfolding r2 clk by (simp add: extract_json_from_url_value_def attribute_error_def day1_def)

  have h3: "request_json (request_with_body (Inl 415)) = Inl 415"
    by (simp add: request_with_body_json)
  from usage_recorded_once_per_extraction [OF request_with_body_key ne v,
      where status = 415 and L = ?L] h3
  have c4: "api_extract_json ?L demo_clock (request_with_body (Inl 415)) one_key =
     ((Aborted, 415), ?km1)"
    by blast

  have h4: "request_json (request_with_body (Inr JNull)) = Inr JNull \<and> \<not> truthy JNull"
    by (simp add: request_with_body_json)
  from usage_recorded_once_per_extraction [OF request_with_body_key ne v,
      where body = JNull and L = ?L] h4
  have c5: "api_extract_json ?L demo_clock (request_with_body (Inr JNull)) one_key =
     ((Failure ''JSON data required'', 400), ?km1)"
    by blast

  let ?b5 = "JArray [JInt 1]"
  have h5: "request_json (request_with_body (Inr ?b5)) = Inr ?b5 \<and> truthy ?b5 \<and>
            data_get ?b5 ''url'' = Inl (attribute_error ?b5 ''get'')"
    by (simp add: request_with_body_json data_get_def)
  from usage_recorded_once_per_extraction [OF request_with_body_key ne v,
      where body = ?b5 and e = "attribute_error ?b5 ''get''" and L = ?L] h5
  have c6: "api_extract_json ?L demo_clock (request_with_body (Inr ?b5)) one_key =
     ((InternalServerError, 500), ?km1)"
    by blast

  let ?b6 = "JObject [(''link'', JString ''shop.example'')]"
  have h6: "request_json (request_with_body (Inr ?b6)) = Inr ?b6 \<and> truthy ?b6 \<and>
            data_get ?b6 ''url'' = Inr JNull \<and> \<not> truthy JNull"
    by (simp add: request_with_body_json data_get_def)
  from usage_recorded_once_per_extraction [OF request_with_body_key ne v,
      where body = ?b6 and u = JNull and L = ?L] h6
  have c7: "api_extract_json ?L demo_clock (request_with_body (Inr ?b6)) one_key =
     ((Failure ''URL parameter required'', 400), ?km1)"
    by blast

  have c8: "ledger_total (usage_data ?km1) ''api_k1'' = 0"
    using l0 t0 by simp
  from c1 c2 c3 c4 c5 c6 c7 c8 show ?thesis by blast
qed

text \<open>
  A request whose key passes \<open>validate_api_key\<close> and whose body is \<open>{"url": ""}\<close>: the reply
  is 400 and \<open>record_usage\<close> is not called.
\<close>

theorem usage_not_recorded_counterexample:
  "fst (validate_api_key (at_validate demo_clock) (request_api_key (request_with_url [])) one_key) =
     Inr \<lparr>user_email = ''a@b.c'', api_key = ''api_k1'', plan_type = ''free'',
           requests_per_day = 100, rate_limit = 10, created_at = ''2024-05-01T10:00:00'',
           is_active = True, total_requests = 0, last_used = None\<rparr> \<and>
   request_json (request_with_url []) = Inr (JObject [(''url'', JString [])]) \<and>
   api_extract_json (python demo_web) demo_clock (request_with_url []) one_key =
     ((Failure ''URL parameter required'', 400),
      snd (validate_api_key day1 ''api_k1'' one_key)) \<and>
   ledger_total (usage_data (snd (api_extract_json (python demo_web) demo_clock
      (request_with_url []) one_key))) ''api_k1'' = 0 \<and>
   snd (api_extract_json (python demo_web) demo_clock (request_with_url []) one_key) \<noteq>
     snd (record_usage day1 day1 ''api_k1'' (snd (validate_api_key day1 ''api_k1'' one_key)))"
proof -
  let ?km1 = "snd (validate_api_key day1 ''api_k1'' one_key)"
  have v: "fst (validate_api_key (at_validate demo_clock) (request_api_key (request_with_url [])) one_key) =
     Inr \<lparr>user_email = ''a@b.c'', api_key = ''api_k1'', plan_type = ''free'',
           requests_per_day = 100, rate_limit = 10, created_at = ''2024-05-01T10:00:00'',
           is_active = True, total_requests = 0, last_used = None\<rparr>"
    by (simp add: demo_clock_def request_with_url_key one_key_accepted)
  have b: "request_json (request_with_url []) = Inr (JObject [(''url'', JString [])])"
    by (simp add: request_with_url_def request_with_body_json)
  obtain km1 where vv: "validate_api_key day1 ''api_k1'' one_key =
     (Inr \<lparr>user_email = ''a@b.c'', api_key = ''api_k1'', plan_type = ''free'',
           requests_per_day = 100, rate_limit = 10, created_at = ''2024-05-01T10:00:00'',
           is_active = True, total_requests = 0, last_used = None\<rparr>, km1)"
    using one_key_accepted by (cases "validate_api_key day1 ''api_k1'' one_key") auto
  then have km1: "km1 = ?km1" by simp
  have "api_extract_json (python demo_web) demo_clock (request_with_url []) one_key =
     ((Failure ''URL parameter required'', 400), km1)"
    using vv
    by (simp add: api_extract_json_def Let_def request_with_url_key b data_get_def
        demo_clock_def)
  then have r: "api_extract_json (python demo_web) demo_clock (request_with_url []) one_key =
     ((Failure ''URL parameter required'', 400), ?km1)"
    unfolding km1 .
  have u1: "usage_data ?km1 = [(''2024-05-01'', [(''api_k1'', 0)])]"
    by (simp add: validate_api_key_def Let_def one_key_record one_key_usage day1_def)
  have l: "ledger_total (usage_data ?km1) ''api_k1'' = 0"
    by (simp add: u1 ledger_total_def dict_get_def)
  have "ledger_total (usage_data (snd (record_usage day1 day1 ''api_k1'' ?km1))) ''api_k1'' = 1"
    by (simp add: usage_after_record ledger_total_update l)
  with l have d: "?km1 \<noteq> snd (record_usage day1 day1 ''api_k1'' ?km1)"
    by auto
  from v b r l d show ?thesis by simp
qed

end
